theory Spec2Isabelle
  imports Main "HOL-Library.AList"
begin

section \<open>Text: characters and Python's string operations\<close>

text \<open>
  The extractor \<^verbatim>\<open>extract_resume_from_pdf\<close> of \<^verbatim>\<open>src/app.py\<close> works on Python
  \<^verbatim>\<open>str\<close> values. A \<^typ>\<open>char\<close> here is one code point in the range U+0000..U+00FF, so
  \<^const>\<open>length\<close> counts code points as Python's \<^verbatim>\<open>len\<close> does. The classification
  functions below are Python's on that range.
\<close>

definition in_range :: "nat \<Rightarrow> nat \<Rightarrow> char \<Rightarrow> bool" where
  "in_range lo hi c = (lo \<le> (of_char c :: nat) \<and> (of_char c :: nat) \<le> hi)"

definition isspace :: "char \<Rightarrow> bool" where
  \<comment> \<open>\<^verbatim>\<open>str.isspace\<close>, and the regular-expression class \<^verbatim>\<open>\s\<close>.\<close>
  "isspace c = (in_range 9 13 c \<or> in_range 28 32 c \<or> in_range 133 133 c \<or> in_range 160 160 c)"

definition isalpha :: "char \<Rightarrow> bool" where
  \<comment> \<open>\<^verbatim>\<open>str.isalpha\<close>.\<close>
  "isalpha c = (in_range 65 90 c \<or> in_range 97 122 c \<or> in_range 170 170 c \<or> in_range 181 181 c
     \<or> in_range 186 186 c \<or> in_range 192 214 c \<or> in_range 216 246 c \<or> in_range 248 255 c)"

definition isdigit :: "char \<Rightarrow> bool" where
  \<comment> \<open>The regular-expression class \<^verbatim>\<open>\d\<close>.\<close>
  "isdigit c = in_range 48 57 c"

definition isword :: "char \<Rightarrow> bool" where
  \<comment> \<open>The regular-expression class \<^verbatim>\<open>\w\<close>, which decides \<^verbatim>\<open>\b\<close>.\<close>
  "isword c = (isalpha c \<or> isdigit c \<or> in_range 95 95 c \<or> in_range 178 179 c
     \<or> in_range 185 185 c \<or> in_range 188 190 c)"

definition lower_char :: "char \<Rightarrow> char" where
  "lower_char c = (if in_range 65 90 c \<or> in_range 192 214 c \<or> in_range 216 222 c
     then char_of ((of_char c :: nat) + 32) else c)"

definition lower :: "string \<Rightarrow> string" where
  \<comment> \<open>\<^verbatim>\<open>str.lower\<close>.\<close>
  "lower s = map lower_char s"

definition strip :: "string \<Rightarrow> string" where
  \<comment> \<open>\<^verbatim>\<open>str.strip()\<close>: whitespace removed at both ends.\<close>
  "strip s = rev (dropWhile isspace (rev (dropWhile isspace s)))"

definition startswith :: "string \<Rightarrow> string \<Rightarrow> bool" where
  \<comment> \<open>\<^verbatim>\<open>s.startswith(p)\<close>.\<close>
  "startswith s p = (take (length p) s = p)"

fun str_in :: "string \<Rightarrow> string \<Rightarrow> bool" where
  \<comment> \<open>\<^verbatim>\<open>needle in hay\<close> on strings.\<close>
  "str_in needle [] = (needle = [])"
| "str_in needle (c # cs) = (startswith (c # cs) needle \<or> str_in needle cs)"

definition is_linebreak :: "char \<Rightarrow> bool" where
  \<comment> \<open>The line boundaries of \<^verbatim>\<open>str.splitlines\<close>.\<close>
  "is_linebreak c = (in_range 10 13 c \<or> in_range 28 30 c \<or> in_range 133 133 c)"

fun splitlines_aux :: "string \<Rightarrow> string \<Rightarrow> string list" where
  "splitlines_aux [] cur = (if cur = [] then [] else [rev cur])"
| "splitlines_aux [c] cur =
     (if is_linebreak c then [rev cur] else [rev (c # cur)])"
| "splitlines_aux (c # d # cs) cur =
     (if c = CHR 0x0D \<and> d = CHR 0x0A then rev cur # splitlines_aux cs []
      else if is_linebreak c then rev cur # splitlines_aux (d # cs) []
      else splitlines_aux (d # cs) (c # cur))"

definition splitlines :: "string \<Rightarrow> string list" where
  \<comment> \<open>\<^verbatim>\<open>str.splitlines()\<close>; \<^verbatim>\<open>\r\n\<close> is one boundary, no empty last line.\<close>
  "splitlines s = splitlines_aux s []"

fun split_aux :: "string \<Rightarrow> string \<Rightarrow> string list" where
  "split_aux [] cur = (if cur = [] then [] else [rev cur])"
| "split_aux (c # cs) cur =
     (if isspace c then (if cur = [] then split_aux cs [] else rev cur # split_aux cs [])
      else split_aux cs (c # cur))"

definition split :: "string \<Rightarrow> string list" where
  \<comment> \<open>\<^verbatim>\<open>str.split()\<close>: the maximal runs of non-whitespace.\<close>
  "split s = split_aux s []"

fun join :: "string \<Rightarrow> string list \<Rightarrow> string" where
  \<comment> \<open>\<^verbatim>\<open>sep.join(xs)\<close>.\<close>
  "join sep [] = []"
| "join sep [x] = x"
| "join sep (x # y # ys) = x @ sep @ join sep (y # ys)"

section \<open>Regular expressions\<close>

text \<open>
  The patterns of the source quantify single characters and character classes only, so a
  pattern is a list of items. Matching is Python's: leftmost, each quantifier greedy, with
  backtracking. \<open>LitI\<close> is a literal under \<^verbatim>\<open>re.IGNORECASE\<close>.
\<close>

datatype cls = Lit char | LitI char | Space | Digit | Range nat nat | Neg cls | Or cls cls

fun in_cls :: "cls \<Rightarrow> char \<Rightarrow> bool" where
  "in_cls (Lit a) c = (c = a)"
| "in_cls (LitI a) c = (lower_char c = lower_char a)"
| "in_cls Space c = isspace c"
| "in_cls Digit c = isdigit c"
| "in_cls (Range lo hi) c = in_range lo hi c"
| "in_cls (Neg k) c = (\<not> in_cls k c)"
| "in_cls (Or k l) c = (in_cls k c \<or> in_cls l c)"

datatype item = One cls | Opt cls | Star cls | Bol | Eol | WordB

definition at_boundary :: "char option \<Rightarrow> string \<Rightarrow> bool" where
  \<comment> \<open>\<^verbatim>\<open>\b\<close>: exactly one of the characters before and after the position is a word character.\<close>
  "at_boundary prev s =
     ((case prev of None \<Rightarrow> False | Some p \<Rightarrow> isword p) \<noteq> (case s of [] \<Rightarrow> False | c # _ \<Rightarrow> isword c))"

fun match_here :: "item list \<Rightarrow> char option \<Rightarrow> string \<Rightarrow> nat option" where
  "match_here [] prev s = Some 0"
| "match_here (One k # p) prev [] = None"
| "match_here (One k # p) prev (c # cs) =
     (if in_cls k c then map_option Suc (match_here p (Some c) cs) else None)"
| "match_here (Opt k # p) prev [] = match_here p prev []"
| "match_here (Opt k # p) prev (c # cs) =
     (if in_cls k c then
        (case match_here p (Some c) cs of Some n \<Rightarrow> Some (Suc n)
         | None \<Rightarrow> match_here p prev (c # cs))
      else match_here p prev (c # cs))"
| "match_here (Star k # p) prev [] = match_here p prev []"
| "match_here (Star k # p) prev (c # cs) =
     (if in_cls k c then
        (case match_here (Star k # p) (Some c) cs of Some n \<Rightarrow> Some (Suc n)
         | None \<Rightarrow> match_here p prev (c # cs))
      else match_here p prev (c # cs))"
| "match_here (Bol # p) prev s = (if prev = None then match_here p prev s else None)"
| "match_here (Eol # p) prev s =
     (if s = [] \<or> s = [CHR 0x0A] then match_here p prev s else None)"
| "match_here (WordB # p) prev s = (if at_boundary prev s then match_here p prev s else None)"

fun search_from :: "item list \<Rightarrow> char option \<Rightarrow> string \<Rightarrow> string option" where
  "search_from p prev [] = map_option (\<lambda>n. []) (match_here p prev [])"
| "search_from p prev (c # cs) =
     (case match_here p prev (c # cs) of Some n \<Rightarrow> Some (take n (c # cs))
      | None \<Rightarrow> search_from p (Some c) cs)"

definition re_search :: "item list \<Rightarrow> string \<Rightarrow> string option" where
  \<comment> \<open>\<^verbatim>\<open>re.search(p, s)\<close>: the text of the leftmost match (\<^verbatim>\<open>m.group(0)\<close>), if any.\<close>
  "re_search p s = search_from p None s"

definition re_match :: "item list \<Rightarrow> string \<Rightarrow> bool" where
  \<comment> \<open>\<^verbatim>\<open>re.match(p, s)\<close> as a truth value: a match at the start of \<open>s\<close>.\<close>
  "re_match p s = (match_here p None s \<noteq> None)"

definition lit :: "string \<Rightarrow> item list" where
  "lit s = map (\<lambda>c. One (Lit c)) s"

definition ilit :: "string \<Rightarrow> item list" where
  "ilit s = map (\<lambda>c. One (LitI c)) s"

definition rplus :: "cls \<Rightarrow> item list" where
  \<comment> \<open>\<^verbatim>\<open>k+\<close>.\<close>
  "rplus k = [One k, Star k]"

fun re_split_aux :: "cls \<Rightarrow> string \<Rightarrow> string \<Rightarrow> string list" where
  "re_split_aux k [] cur = [rev cur]"
| "re_split_aux k (c # cs) cur =
     (if in_cls k c then rev cur # re_split_aux k cs [] else re_split_aux k cs (c # cur))"

definition re_split :: "cls \<Rightarrow> string \<Rightarrow> string list" where
  \<comment> \<open>\<^verbatim>\<open>re.split\<close> with a pattern that is one character class.\<close>
  "re_split k s = re_split_aux k s []"

section \<open>The extracted fields\<close>

type_synonym fields = "string \<rightharpoonup> string"

datatype error = PdfError | ZeroDivisionError | KeyError | ValueError

text \<open>
  The body of the \<^verbatim>\<open>try\<close> statement either runs to its end, or raises with the dictionary
  \<^verbatim>\<open>result\<close> as it is at that moment: \<open>Inl (e, result)\<close>.
\<close>

type_synonym 'a res = "(error \<times> fields) + 'a"

definition get_default_16_fields :: fields where
  "get_default_16_fields =
     [''title'' \<mapsto> '''',
      ''fullname'' \<mapsto> ''Your Name'',
      ''email'' \<mapsto> '''',
      ''phone'' \<mapsto> '''',
      ''location'' \<mapsto> '''',
      ''summary'' \<mapsto> ''PDF loaded successfully! Edit your details above.'',
      ''skills'' \<mapsto> '''',
      ''experience'' \<mapsto> '''',
      ''education'' \<mapsto> '''',
      ''projects'' \<mapsto> '''',
      ''certifications'' \<mapsto> '''',
      ''awards'' \<mapsto> '''',
      ''languages'' \<mapsto> '''',
      ''linkedin'' \<mapsto> '''',
      ''github'' \<mapsto> '''',
      ''website'' \<mapsto> '''',
      ''dob'' \<mapsto> '''',
      ''nationality'' \<mapsto> '''',
      ''softskills'' \<mapsto> '''',
      ''career_objective'' \<mapsto> '''']"

definition field_names :: "string list" where
  "field_names =
     [''title'', ''fullname'', ''email'', ''phone'', ''location'', ''summary'', ''skills'',
      ''experience'', ''education'', ''projects'', ''certifications'', ''awards'', ''languages'',
      ''linkedin'', ''github'', ''website'', ''dob'', ''nationality'', ''softskills'',
      ''career_objective'']"

definition getitem :: "fields \<Rightarrow> string \<Rightarrow> string res" where
  \<comment> \<open>\<^verbatim>\<open>result[k]\<close> read: a missing key raises.\<close>
  "getitem r k = (case r k of None \<Rightarrow> Inl (KeyError, r) | Some v \<Rightarrow> Inr v)"

section \<open>Text acquisition and line normalization\<close>

text \<open>
  \<^verbatim>\<open>pdfplumber\<close> is outside the repository: opening the file raises or gives the pages, and
  \<^verbatim>\<open>extract_text\<close> on a page raises, or returns \<^verbatim>\<open>None\<close> or a string.
\<close>

type_synonym pdf = "error + (error + string option) list"

fun read_pages :: "(error + string option) list \<Rightarrow> string \<Rightarrow> error + string" where
  "read_pages [] all_text = Inr all_text"
| "read_pages (Inl e # pages) all_text = Inl e"
| "read_pages (Inr t # pages) all_text =
     (let page_text = (case t of None \<Rightarrow> '''' | Some s \<Rightarrow> s)
      in if page_text \<noteq> [] then read_pages pages (all_text @ [CHR 0x0A] @ page_text)
         else read_pages pages all_text)"

definition normalize_lines :: "string \<Rightarrow> string list" where
  \<comment> \<open>\<^verbatim>\<open>[ln.strip() for ln in all_text.splitlines() if ln.strip()]\<close>\<close>
  "normalize_lines all_text = map strip (filter (\<lambda>ln. strip ln \<noteq> []) (splitlines all_text))"

section \<open>Name, e-mail, phone, location, links\<close>

text \<open>
  The test \<^verbatim>\<open>alpha_count / len(ln) > 0.7\<close> is on floats. It is reached with
  \<^verbatim>\<open>len(ln) < 50\<close> only, where the quotient is further from \<open>7/10\<close> than any
  rounding error unless it is equal to it, so it is the comparison
  \<open>10 * alpha_count > 7 * len(ln)\<close> of integers. The division raises on a zero length.
\<close>

fun detect_name :: "string list \<Rightarrow> fields \<Rightarrow> fields res" where
  "detect_name [] result = Inr result"
| "detect_name (ln # lns) result =
     (if str_in ''@'' ln \<or> str_in ''http'' (lower ln) \<or> str_in ''+91'' ln
      then detect_name lns result
      else
        let words = split ln in
        if 2 \<le> length words \<and> length words \<le> 4 \<and> length ln < 50 then
          let alpha_count = length (filter (\<lambda>c. isalpha c \<or> isspace c) ln) in
          if alpha_count > 0 then
            (if length ln = 0 then Inl (ZeroDivisionError, result)
             else if 10 * alpha_count > 7 * length ln then Inr (result(''fullname'' \<mapsto> ln))
             else detect_name lns result)
          else detect_name lns result
        else detect_name lns result)"

definition email_pattern :: "item list" where
  \<comment> \<open>\<^verbatim>\<open>[A-Za-z0-9._%+-]+@[A-Za-z0-9.-]+\.[A-Za-z]{2,}\<close>\<close>
  "email_pattern =
     (let alnum = Or (Range 65 90) (Or (Range 97 122) (Range 48 57));
          alpha = Or (Range 65 90) (Range 97 122)
      in rplus (Or alnum (Or (Lit CHR ''.'') (Or (Lit CHR ''_'') (Or (Lit CHR ''%'')
                 (Or (Lit CHR ''+'') (Lit CHR ''-''))))))
         @ lit ''@''
         @ rplus (Or alnum (Or (Lit CHR ''.'') (Lit CHR ''-'')))
         @ lit ''.''
         @ [One alpha, One alpha, Star alpha])"

definition detect_email :: "string \<Rightarrow> fields \<Rightarrow> fields" where
  "detect_email all_text result =
     (case re_search email_pattern all_text of None \<Rightarrow> result
      | Some m \<Rightarrow> result(''email'' \<mapsto> m))"

definition phone_patterns :: "item list list" where
  \<comment> \<open>\<^verbatim>\<open>\+91[\s\-]?\d{10}\<close>, \<^verbatim>\<open>\b0\d{10}\b\<close>, \<^verbatim>\<open>\b\d{10}\b\<close>\<close>
  "phone_patterns =
     [lit ''+91'' @ [Opt (Or Space (Lit CHR ''-''))] @ replicate 10 (One Digit),
      [WordB, One (Lit CHR ''0'')] @ replicate 10 (One Digit) @ [WordB],
      [WordB] @ replicate 10 (One Digit) @ [WordB]]"

fun first_phone :: "item list list \<Rightarrow> string \<Rightarrow> string" where
  "first_phone [] all_text = ''''"
| "first_phone (pattern # patterns) all_text =
     (case re_search pattern all_text of Some m \<Rightarrow> m | None \<Rightarrow> first_phone patterns all_text)"

definition detect_phone :: "string \<Rightarrow> fields \<Rightarrow> fields" where
  "detect_phone all_text result =
     (let phone = first_phone phone_patterns all_text
      in if phone \<noteq> [] then result(''phone'' \<mapsto> phone) else result)"

definition cities :: "string list" where
  "cities =
     [''ahmedabad'', ''gandhinagar'', ''vadodara'', ''surat'',
      ''delhi'', ''mumbai'', ''bangalore'', ''pune'', ''hyderabad'',
      ''kolkata'', ''firozabad'', ''india'', ''gujarat'',
      ''usa'', ''uk'', ''canada'']"

fun location_by_city :: "string list \<Rightarrow> fields \<Rightarrow> fields res" where
  "location_by_city [] result = Inr result"
| "location_by_city (ln # lns) result =
     (let low = lower ln;
          result' = (if list_ex (\<lambda>city. str_in city low \<and> length ln < 80) cities
                     then result(''location'' \<mapsto> ln) else result)
      in case getitem result' ''location'' of Inl x \<Rightarrow> Inl x
         | Inr v \<Rightarrow> if v \<noteq> [] then Inr result' else location_by_city lns result')"

fun location_by_comma :: "string list \<Rightarrow> fields \<Rightarrow> fields" where
  "location_by_comma [] result = result"
| "location_by_comma (ln # lns) result =
     (if str_in '','' ln \<and> list_ex isalpha ln then result(''location'' \<mapsto> ln)
      else location_by_comma lns result)"

definition detect_location :: "string list \<Rightarrow> fields \<Rightarrow> fields res" where
  "detect_location lines result =
     (case location_by_city lines result of Inl x \<Rightarrow> Inl x
      | Inr result' \<Rightarrow>
          (case getitem result' ''location'' of Inl x \<Rightarrow> Inl x
           | Inr v \<Rightarrow> if v = [] then Inr (location_by_comma (take 10 lines) result')
                      else Inr result'))"

definition social_pattern :: "string \<Rightarrow> item list" where
  \<comment> \<open>\<^verbatim>\<open>linkedin\.com[^\s]*\<close> and \<^verbatim>\<open>github\.com[^\s]*\<close>, with \<^verbatim>\<open>re.IGNORECASE\<close>\<close>
  "social_pattern site = ilit site @ lit ''.'' @ ilit ''com'' @ [Star (Neg Space)]"

definition detect_link :: "string \<Rightarrow> string \<Rightarrow> string \<Rightarrow> fields \<Rightarrow> fields" where
  "detect_link field site all_text result =
     (case re_search (social_pattern site) all_text of None \<Rightarrow> result
      | Some url \<Rightarrow>
          result(field \<mapsto> (if startswith url ''http'' then url else ''https://'' @ url)))"

definition detect_social :: "string \<Rightarrow> fields \<Rightarrow> fields" where
  "detect_social all_text result =
     detect_link ''github'' ''github'' all_text (detect_link ''linkedin'' ''linkedin'' all_text result)"

section \<open>Section headers and section content\<close>

definition spaced :: "string \<Rightarrow> string \<Rightarrow> item list" where
  \<comment> \<open>\<^verbatim>\<open>a\s+b\<close>\<close>
  "spaced a b = ilit a @ rplus Space @ ilit b"

definition whole :: "item list \<Rightarrow> item list" where
  \<comment> \<open>\<^verbatim>\<open>^p$\<close>\<close>
  "whole p = [Bol] @ p @ [Eol]"

definition opt_s :: "item list" where
  \<comment> \<open>\<^verbatim>\<open>s?\<close>\<close>
  "opt_s = [Opt (LitI CHR ''s'')]"

definition section_patterns :: "(string \<times> item list list) list" where
  \<comment> \<open>The dictionary of the source, in its order; every pattern is used with \<^verbatim>\<open>re.IGNORECASE\<close>.\<close>
  "section_patterns =
     [(''summary'',
        [spaced ''career'' ''objective'', whole (ilit ''objective''),
         spaced ''professional'' ''summary'', ilit ''summary'', ilit ''profile'',
         spaced ''about'' ''me'']),
      (''skills'',
        [spaced ''technical'' ''skills'', whole (ilit ''skills''),
         spaced ''core'' ''competencies'', spaced ''key'' ''skills'',
         ilit ''skills'' @ rplus Space @ ilit ''and'' @ rplus Space @ ilit ''tools'']),
      (''experience'',
        [spaced ''professional'' ''experience'', spaced ''work'' ''experience'',
         whole (ilit ''experience''), spaced ''employment'' ''history'',
         spaced ''career'' ''history'', spaced ''internship'' ''experience'']),
      (''projects'',
        [spaced ''academic'' ''projects'', spaced ''key'' ''projects'',
         whole (ilit ''projects''), spaced ''personal'' ''projects'']),
      (''education'',
        [whole (ilit ''education''), spaced ''academic'' ''background'',
         spaced ''educational'' ''qualification'', spaced ''academic'' ''qualifications'',
         spaced ''education'' ''details'']),
      (''certifications'',
        [whole (ilit ''certification'' @ opt_s),
         spaced ''professional'' ''certification'' @ opt_s,
         ilit ''license'' @ opt_s, ilit ''courses'']),
      (''languages'',
        [ilit ''language'' @ opt_s @ rplus Space @ ilit ''known'',
         whole (ilit ''language'' @ opt_s)]),
      (''awards'',
        [whole (ilit ''awards''), ilit ''achievements'', ilit ''honors''])]"

definition matches_any :: "item list list \<Rightarrow> string \<Rightarrow> bool" where
  \<comment> \<open>Some pattern of the list is found in the line.\<close>
  "matches_any patterns ln = list_ex (\<lambda>pattern. re_search pattern ln \<noteq> None) patterns"

definition patterns_for :: "string \<Rightarrow> item list list" where
  \<comment> \<open>\<^verbatim>\<open>section_patterns[field]\<close>, for stating what the header search of a field looks for.\<close>
  "patterns_for field = (case map_of section_patterns field of None \<Rightarrow> [] | Some ps \<Rightarrow> ps)"

fun first_header :: "item list list \<Rightarrow> string list \<Rightarrow> nat \<Rightarrow> nat option" where
  "first_header patterns [] i = None"
| "first_header patterns (ln # lns) i =
     (if matches_any patterns ln then Some i else first_header patterns lns (Suc i))"

fun locate_headers ::
  "(string \<times> item list list) list \<Rightarrow> string list \<Rightarrow> (string \<times> nat) list \<Rightarrow> (string \<times> nat) list"
where
  "locate_headers [] lines section_positions = section_positions"
| "locate_headers ((field, patterns) # rest) lines section_positions =
     (case first_header patterns lines 0 of
        None \<Rightarrow> locate_headers rest lines section_positions
      | Some i \<Rightarrow> locate_headers rest lines (AList.update field i section_positions))"

definition slice :: "'a list \<Rightarrow> nat \<Rightarrow> nat \<Rightarrow> 'a list" where
  \<comment> \<open>\<^verbatim>\<open>xs[a:b]\<close> for indices that are not negative.\<close>
  "slice xs a b = take (b - a) (drop a xs)"

definition section_end :: "string list \<Rightarrow> (string \<times> nat) list \<Rightarrow> nat \<Rightarrow> nat" where
  \<comment> \<open>The loop over \<^verbatim>\<open>section_positions.items()\<close> that lowers \<^verbatim>\<open>end\<close>.\<close>
  "section_end lines section_positions start =
     foldl (\<lambda>e (other_field, pos). if pos > start \<and> pos < e then pos else e)
       (length lines) section_positions"

definition page_pattern :: "item list" where
  \<comment> \<open>\<^verbatim>\<open>^page\s+\d+\<close>, with \<^verbatim>\<open>re.IGNORECASE\<close>\<close>
  "page_pattern = [Bol] @ ilit ''page'' @ rplus Space @ rplus Digit"

definition get_section_content ::
  "string list \<Rightarrow> (string \<times> nat) list \<Rightarrow> string \<Rightarrow> nat \<Rightarrow> string list"
where
  "get_section_content lines section_positions field_name max_lines =
     (case map_of section_positions field_name of
        None \<Rightarrow> []
      | Some p \<Rightarrow>
          let start = p + 1;
              e = section_end lines section_positions start;
              e' = min e (start + max_lines);
              content_lines = slice lines start e'
          in filter (\<lambda>ln. \<not> length ln < 10 \<and> \<not> re_match page_pattern ln) content_lines)"

section \<open>Assembling the section fields\<close>

definition fill_summary :: "string list \<Rightarrow> (string \<times> nat) list \<Rightarrow> fields \<Rightarrow> fields" where
  "fill_summary lines section_positions result =
     (let summary_lines = get_section_content lines section_positions ''summary'' 10
      in if summary_lines \<noteq> [] then
           let full_summary = take 1000 (join '' '' summary_lines);
               result' = result(''summary'' \<mapsto> full_summary)
           in if list_ex (\<lambda>ln. re_search (spaced ''career'' ''objective'') ln \<noteq> None) lines
              then result'(''career_objective'' \<mapsto> full_summary)
              else result'
         else result)"

definition skill_delimiter :: cls where
  \<comment> \<open>\<^verbatim>\<open>[,|/\n]\<close>; the bullet U+2022 of the source's class is not a \<^typ>\<open>char\<close>.\<close>
  "skill_delimiter =
     Or (Lit CHR '','') (Or (Lit CHR ''|'') (Or (Lit CHR ''/'') (Lit (CHR 0x0A))))"

definition fill_skills :: "string list \<Rightarrow> (string \<times> nat) list \<Rightarrow> fields \<Rightarrow> fields" where
  "fill_skills lines section_positions result =
     (let skills_lines = get_section_content lines section_positions ''skills'' 20
      in if skills_lines \<noteq> [] then
           let skills_text = join '' '' skills_lines;
               skills = re_split skill_delimiter skills_text;
               skills' = map strip
                 (filter (\<lambda>s. 2 < length (strip s) \<and> length (strip s) < 80) skills)
           in result(''skills'' \<mapsto> take 500 (join '', '' (take 30 skills')))
         else result)"

fun index_of :: "'a list \<Rightarrow> 'a \<Rightarrow> nat option" where
  \<comment> \<open>\<^verbatim>\<open>xs.index(x)\<close>; \<open>None\<close> where Python raises \<^verbatim>\<open>ValueError\<close>.\<close>
  "index_of [] x = None"
| "index_of (y # ys) x = (if y = x then Some 0 else map_option Suc (index_of ys x))"

fun experience_fallback :: "string list \<Rightarrow> string list \<Rightarrow> fields \<Rightarrow> string list res" where
  \<comment> \<open>The loop over \<^verbatim>\<open>lines\<close>; the first argument is what is left of them.\<close>
  "experience_fallback [] lines result = Inr []"
| "experience_fallback (ln # lns) lines result =
     (if str_in ''experience'' (lower ln) \<and> length ln < 70 then
        (case index_of lines ln of
           None \<Rightarrow> Inl (ValueError, result)
         | Some idx \<Rightarrow> Inr (slice lines (idx + 1) (idx + 15)))
      else experience_fallback lns lines result)"

definition fill_experience :: "string list \<Rightarrow> (string \<times> nat) list \<Rightarrow> fields \<Rightarrow> fields res" where
  "fill_experience lines section_positions result =
     (let exp_lines = get_section_content lines section_positions ''experience'' 30
      in case (if exp_lines = [] then experience_fallback lines lines result else Inr exp_lines) of
           Inl x \<Rightarrow> Inl x
         | Inr exp_lines' \<Rightarrow>
             if exp_lines' \<noteq> []
             then Inr (result(''experience'' \<mapsto> take 1500 (join [CHR 0x0A] exp_lines')))
             else Inr result)"

definition degree_words :: "string list" where
  "degree_words = [''b.tech'', ''b.e'', ''bachelor'', ''master'', ''phd'', ''degree'']"

definition fill_education :: "string list \<Rightarrow> (string \<times> nat) list \<Rightarrow> fields \<Rightarrow> fields" where
  "fill_education lines section_positions result =
     (let edu_lines = get_section_content lines section_positions ''education'' 20;
          edu_lines' = (if edu_lines = []
                        then filter (\<lambda>ln. list_ex (\<lambda>dw. str_in dw (lower ln)) degree_words) lines
                        else edu_lines)
      in if edu_lines' \<noteq> []
         then result(''education'' \<mapsto> take 1000 (join [CHR 0x0A] edu_lines'))
         else result)"

definition fill_section ::
  "string \<Rightarrow> nat \<Rightarrow> string \<Rightarrow> nat \<Rightarrow> string list \<Rightarrow> (string \<times> nat) list \<Rightarrow> fields \<Rightarrow> fields"
where
  \<comment> \<open>The four sections with no fallback: projects, certifications, languages, awards.\<close>
  "fill_section field max_lines sep cap lines section_positions result =
     (let content = get_section_content lines section_positions field max_lines
      in if content \<noteq> [] then result(field \<mapsto> take cap (join sep content)) else result)"

section \<open>Title\<close>

definition title_keywords :: "string list" where
  "title_keywords =
     [''engineer'', ''developer'', ''analyst'', ''manager'', ''specialist'',
      ''consultant'', ''architect'', ''designer'', ''scientist'', ''executive'',
      ''coordinator'']"

fun title_scan :: "string list \<Rightarrow> fields \<Rightarrow> fields" where
  "title_scan [] result = result"
| "title_scan (ln # lns) result =
     (if list_ex (\<lambda>kw. str_in kw (lower ln)) title_keywords \<and> length ln < 100
      then result(''title'' \<mapsto> ln) else title_scan lns result)"

definition infer_title :: "string list \<Rightarrow> fields \<Rightarrow> fields res" where
  "infer_title lines result =
     (case getitem result ''title'' of Inl x \<Rightarrow> Inl x
      | Inr t \<Rightarrow>
          if t = [] \<or> t = ''My Resume'' then
            let result' = title_scan (take 25 lines) result
            in (case getitem result' ''title'' of Inl x \<Rightarrow> Inl x
                | Inr t' \<Rightarrow>
                    if t' = ''My Resume'' then
                      (case getitem result' ''skills'' of Inl x \<Rightarrow> Inl x
                       | Inr skills \<Rightarrow>
                           if str_in ''data'' (lower skills)
                           then Inr (result'(''title'' \<mapsto> ''Data Professional''))
                           else if str_in ''python'' (lower skills)
                           then Inr (result'(''title'' \<mapsto> ''Software Developer''))
                           else Inr (result'(''title'' \<mapsto> ''Professional'')))
                    else Inr result')
          else Inr result)"

section \<open>The extractor\<close>

definition fill_sections :: "string list \<Rightarrow> (string \<times> nat) list \<Rightarrow> fields \<Rightarrow> fields res" where
  \<comment> \<open>The per-field assembly, in the order of the source.\<close>
  "fill_sections lines section_positions result =
     (case fill_experience lines section_positions
             (fill_skills lines section_positions
               (fill_summary lines section_positions result)) of
        Inl x \<Rightarrow> Inl x
      | Inr result' \<Rightarrow>
          Inr (fill_section ''awards'' 15 [CHR 0x0A] 500 lines section_positions
                (fill_section ''languages'' 5 '', '' 300 lines section_positions
                  (fill_section ''certifications'' 15 [CHR 0x0A] 800 lines section_positions
                    (fill_section ''projects'' 30 [CHR 0x0A] 800 lines section_positions
                      (fill_education lines section_positions result'))))))"

definition extract_from_text :: "string \<Rightarrow> fields \<Rightarrow> fields res" where
  \<comment> \<open>The body of the \<^verbatim>\<open>try\<close> statement from \<^verbatim>\<open>all_text = all_text.strip()\<close> on.\<close>
  "extract_from_text text result =
     (let all_text = strip text in
      if all_text = [] then Inr result
      else
        let lines = normalize_lines all_text in
        if lines = [] then Inr result
        else
          (case detect_name (take 15 lines) result of Inl x \<Rightarrow> Inl x
           | Inr result1 \<Rightarrow>
               (case detect_location lines (detect_phone all_text (detect_email all_text result1)) of
                  Inl x \<Rightarrow> Inl x
                | Inr result2 \<Rightarrow>
                    (case fill_sections lines (locate_headers section_patterns lines [])
                            (detect_social all_text result2) of
                       Inl x \<Rightarrow> Inl x
                     | Inr result3 \<Rightarrow> infer_title lines result3))))"

definition acquire :: "pdf \<Rightarrow> error + string" where
  \<comment> \<open>The \<^verbatim>\<open>with pdfplumber.open(pdf_path)\<close> block: the text of the pages, or what it raises.\<close>
  "acquire pdf = (case pdf of Inl e \<Rightarrow> Inl e | Inr pages \<Rightarrow> read_pages pages '''')"

definition try_body :: "pdf \<Rightarrow> fields \<Rightarrow> fields res" where
  "try_body pdf result =
     (case acquire pdf of
        Inl e \<Rightarrow> Inl (e, result)
      | Inr all_text \<Rightarrow> extract_from_text all_text result)"

definition extract_resume_from_pdf :: "pdf \<Rightarrow> fields" where
  \<comment> \<open>\<^verbatim>\<open>except Exception\<close> catches whatever the body raises; \<^verbatim>\<open>result\<close> is returned on every path.\<close>
  "extract_resume_from_pdf pdf =
     (case try_body pdf get_default_16_fields of Inl (e, result) \<Rightarrow> result | Inr result \<Rightarrow> result)"

section \<open>Each stage writes its own keys and never raises\<close>

lemma getitem_Some: "r k = Some v \<Longrightarrow> getitem r k = Inr v"
  by (simp add: getitem_def)

lemma dom_default: "dom get_default_16_fields = set field_names"
  unfolding get_default_16_fields_def field_names_def by auto

lemma strip_blank: "list_all isspace s \<Longrightarrow> strip s = []"
  by (auto simp: strip_def list_all_iff dest: set_dropWhileD)

lemma normalize_lines_nonempty: "ln \<in> set (normalize_lines t) \<Longrightarrow> ln \<noteq> []"
  by (auto simp: normalize_lines_def)

lemma detect_name_run:
  "\<exists>r'. detect_name ls r = Inr r' \<and> (\<forall>k. k \<noteq> ''fullname'' \<longrightarrow> r' k = r k) \<and>
     (r' ''fullname'' = r ''fullname'' \<or>
      (\<exists>ln \<in> set ls. r' ''fullname'' = Some ln \<and>
         2 \<le> length (split ln) \<and> length (split ln) \<le> 4 \<and> ln \<noteq> []))"
proof (induction ls)
  case Nil
  then show ?case by simp
next
  case (Cons ln lns)
  show ?case
  proof (cases "detect_name (ln # lns) r = detect_name lns r")
    case True
    with Cons show ?thesis by auto
  next
    case False
    then have "detect_name (ln # lns) r = Inr (r(''fullname'' \<mapsto> ln))"
      and "2 \<le> length (split ln)" and "length (split ln) \<le> 4" and "ln \<noteq> []"
      by (auto simp: Let_def split: if_splits)
    then show ?thesis by simp
  qed
qed

lemma detect_email_other: "k \<noteq> ''email'' \<Longrightarrow> detect_email t r k = r k"
  by (simp add: detect_email_def split: option.splits)

lemma detect_email_key: "r ''email'' \<noteq> None \<Longrightarrow> detect_email t r ''email'' \<noteq> None"
  by (simp add: detect_email_def split: option.splits)

lemma detect_phone_other: "k \<noteq> ''phone'' \<Longrightarrow> detect_phone t r k = r k"
  by (simp add: detect_phone_def Let_def)

lemma detect_phone_key: "r ''phone'' \<noteq> None \<Longrightarrow> detect_phone t r ''phone'' \<noteq> None"
  by (simp add: detect_phone_def Let_def)

lemma location_by_city_run:
  "r ''location'' \<noteq> None \<Longrightarrow>
   \<exists>r'. location_by_city ls r = Inr r' \<and> (\<forall>k. k \<noteq> ''location'' \<longrightarrow> r' k = r k) \<and>
        r' ''location'' \<noteq> None"
proof (induction ls arbitrary: r)
  case Nil
  then show ?case by simp
next
  case (Cons ln lns)
  define r1 where "r1 = (if list_ex (\<lambda>city. str_in city (lower ln) \<and> length ln < 80) cities
                     then r(''location'' \<mapsto> ln) else r)"
  have other: "\<forall>k. k \<noteq> ''location'' \<longrightarrow> r1 k = r k" by (simp add: r1_def)
  have "r1 ''location'' \<noteq> None" using Cons.prems by (simp add: r1_def)
  then obtain v1 where v1: "r1 ''location'' = Some v1" by blast
  show ?case
  proof (cases "v1 \<noteq> []")
    case True
    then have "location_by_city (ln # lns) r = Inr r1"
      using v1 by (simp add: Let_def r1_def [symmetric] getitem_def)
    then show ?thesis using other v1 by simp
  next
    case False
    then have eq: "location_by_city (ln # lns) r = location_by_city lns r1"
      using v1 by (simp add: Let_def r1_def [symmetric] getitem_def)
    have "r1 ''location'' \<noteq> None" using v1 by simp
    from Cons.IH [of r1, OF this] obtain r' where
      "location_by_city lns r1 = Inr r'" "\<forall>k. k \<noteq> ''location'' \<longrightarrow> r' k = r1 k"
      "r' ''location'' \<noteq> None" by blast
    then show ?thesis using other eq by simp
  qed
qed

lemma location_by_comma_other: "k \<noteq> ''location'' \<Longrightarrow> location_by_comma xs r k = r k"
  by (induction xs) auto

lemma location_by_comma_key:
  "r ''location'' \<noteq> None \<Longrightarrow> location_by_comma xs r ''location'' \<noteq> None"
  by (induction xs) auto

lemma detect_location_run:
  assumes "r ''location'' \<noteq> None"
  shows "\<exists>r'. detect_location ls r = Inr r' \<and> (\<forall>k. k \<noteq> ''location'' \<longrightarrow> r' k = r k) \<and>
           r' ''location'' \<noteq> None"
proof -
  from location_by_city_run [of r ls] assms obtain r1 where
    r1: "location_by_city ls r = Inr r1" "\<forall>k. k \<noteq> ''location'' \<longrightarrow> r1 k = r k"
      "r1 ''location'' \<noteq> None" by blast
  then obtain v1 where v1: "r1 ''location'' = Some v1" by auto
  show ?thesis
  proof (cases "v1 = []")
    case True
    then have "detect_location ls r = Inr (location_by_comma (take 10 ls) r1)"
      using r1 v1 by (simp add: detect_location_def getitem_def)
    then show ?thesis
      using r1 location_by_comma_other [of _ "take 10 ls" r1]
        location_by_comma_key [of r1 "take 10 ls"] by simp
  next
    case False
    then have "detect_location ls r = Inr r1"
      using r1 v1 by (simp add: detect_location_def getitem_def)
    then show ?thesis using r1 by simp
  qed
qed

lemma detect_social_other:
  "k \<noteq> ''linkedin'' \<Longrightarrow> k \<noteq> ''github'' \<Longrightarrow> detect_social t r k = r k"
  by (simp add: detect_social_def detect_link_def split: option.splits)

lemma detect_social_key:
  "r k \<noteq> None \<Longrightarrow> detect_social t r k \<noteq> None"
  by (simp add: detect_social_def detect_link_def split: option.splits)

lemma fill_summary_other:
  "k \<noteq> ''summary'' \<Longrightarrow> k \<noteq> ''career_objective'' \<Longrightarrow> fill_summary ls sp r k = r k"
  by (simp add: fill_summary_def Let_def)

lemma fill_summary_key: "r k \<noteq> None \<Longrightarrow> fill_summary ls sp r k \<noteq> None"
  by (simp add: fill_summary_def Let_def)

lemma fill_skills_other: "k \<noteq> ''skills'' \<Longrightarrow> fill_skills ls sp r k = r k"
  by (simp add: fill_skills_def Let_def)

lemma fill_skills_key: "r k \<noteq> None \<Longrightarrow> fill_skills ls sp r k \<noteq> None"
  by (simp add: fill_skills_def Let_def)

lemma fill_education_other: "k \<noteq> ''education'' \<Longrightarrow> fill_education ls sp r k = r k"
  by (simp add: fill_education_def Let_def)

lemma fill_education_key: "r k \<noteq> None \<Longrightarrow> fill_education ls sp r k \<noteq> None"
  by (simp add: fill_education_def Let_def)

lemma fill_section_other: "k \<noteq> f \<Longrightarrow> fill_section f n sep cap ls sp r k = r k"
  by (simp add: fill_section_def Let_def)

lemma fill_section_key: "r k \<noteq> None \<Longrightarrow> fill_section f n sep cap ls sp r k \<noteq> None"
  by (simp add: fill_section_def Let_def)

lemma title_scan_other: "k \<noteq> ''title'' \<Longrightarrow> title_scan xs r k = r k"
  by (induction xs) auto

lemma title_scan_key: "r k \<noteq> None \<Longrightarrow> title_scan xs r k \<noteq> None"
  by (induction xs) auto

lemma infer_title_run:
  assumes "r ''title'' \<noteq> None" "r ''skills'' \<noteq> None"
  shows "\<exists>r'. infer_title ls r = Inr r' \<and> (\<forall>k. k \<noteq> ''title'' \<longrightarrow> r' k = r k) \<and>
           r' ''title'' \<noteq> None"
proof -
  obtain t where t: "r ''title'' = Some t" using assms by auto
  define r1 where "r1 = title_scan (take 25 ls) r"
  have o1: "\<forall>k. k \<noteq> ''title'' \<longrightarrow> r1 k = r k" by (simp add: r1_def title_scan_other)
  obtain t1 where t1: "r1 ''title'' = Some t1"
    using title_scan_key [of r "''title''" "take 25 ls"] assms(1) by (auto simp: r1_def)
  obtain s1 where s1: "r1 ''skills'' = Some s1" using o1 assms(2) by auto
  show ?thesis
    using t t1 s1 o1 assms
    by (simp add: infer_title_def getitem_def r1_def [symmetric])
qed

lemma join_nonempty: "xs \<noteq> [] \<Longrightarrow> \<forall>x \<in> set xs. x \<noteq> [] \<Longrightarrow> join sep xs \<noteq> []"
  by (induction sep xs rule: join.induct) auto

lemma take_nonempty: "0 < n \<Longrightarrow> s \<noteq> [] \<Longrightarrow> take n s \<noteq> []"
  by (cases s) auto

lemma get_section_content_long:
  "ln \<in> set (get_section_content ls sp f n) \<Longrightarrow> 10 \<le> length ln"
  by (auto simp: get_section_content_def Let_def split: option.splits)

lemma get_section_content_absent:
  "map_of sp f = None \<Longrightarrow> get_section_content ls sp f n = []"
  by (simp add: get_section_content_def)

lemma index_of_mem:
  "x \<in> set xs \<Longrightarrow> \<exists>i. index_of xs x = Some i \<and> i < length xs \<and> xs ! i = x"
  by (induction xs) auto

lemma experience_fallback_run:
  "set rest \<subseteq> set ls \<Longrightarrow>
   experience_fallback rest ls r =
     (case find (\<lambda>ln. str_in ''experience'' (lower ln) \<and> length ln < 70) rest of
        None \<Rightarrow> Inr []
      | Some ln \<Rightarrow> Inr (slice ls (the (index_of ls ln) + 1) (the (index_of ls ln) + 15)))"
proof (induction rest)
  case Nil
  then show ?case by simp
next
  case (Cons ln lns)
  then obtain i where "index_of ls ln = Some i" using index_of_mem [of ln ls] by auto
  with Cons show ?case by simp
qed

lemma fill_experience_run:
  "\<exists>E. \<forall>r. \<exists>r'. fill_experience ls sp r = Inr r' \<and>
      (\<forall>k. k \<noteq> ''experience'' \<longrightarrow> r' k = r k) \<and>
      r' ''experience'' = (if E = [] then r ''experience'' else Some (take 1500 (join [CHR 0x0A] E)))"
proof (cases "get_section_content ls sp ''experience'' 30 = []")
  case True
  obtain E where E: "\<And>r. experience_fallback ls ls r = Inr E"
    using experience_fallback_run [of ls ls] by (cases "find (\<lambda>ln. str_in ''experience'' (lower ln) \<and> length ln < 70) ls") auto
  show ?thesis
    by (rule exI [of _ E]) (simp add: fill_experience_def True E)
next
  case False
  show ?thesis
    by (rule exI [of _ "get_section_content ls sp ''experience'' 30"])
       (simp add: fill_experience_def False)
qed

lemma fill_summary_local:
  "r k = r' k \<Longrightarrow> fill_summary ls sp r k = fill_summary ls sp r' k"
  by (simp add: fill_summary_def Let_def)

lemma fill_skills_local:
  "r k = r' k \<Longrightarrow> fill_skills ls sp r k = fill_skills ls sp r' k"
  by (simp add: fill_skills_def Let_def)

lemma fill_education_local:
  "r k = r' k \<Longrightarrow> fill_education ls sp r k = fill_education ls sp r' k"
  by (simp add: fill_education_def Let_def)

lemma fill_section_local:
  "r k = r' k \<Longrightarrow> fill_section f n sep cap ls sp r k = fill_section f n sep cap ls sp r' k"
  by (simp add: fill_section_def Let_def)

lemma fill_sections_run:
  "\<exists>r'. fill_sections ls sp r = Inr r' \<and>
     (\<forall>k. k \<notin> {''summary'', ''career_objective'', ''skills'', ''experience'', ''education'',
               ''projects'', ''certifications'', ''languages'', ''awards''} \<longrightarrow> r' k = r k) \<and>
     (\<forall>k. r k \<noteq> None \<longrightarrow> r' k \<noteq> None) \<and>
     r' ''summary'' = fill_summary ls sp r ''summary'' \<and>
     r' ''career_objective'' = fill_summary ls sp r ''career_objective'' \<and>
     r' ''skills'' = fill_skills ls sp r ''skills'' \<and>
     (\<exists>re. fill_experience ls sp r = Inr re \<and> r' ''experience'' = re ''experience'') \<and>
     r' ''education'' = fill_education ls sp r ''education'' \<and>
     r' ''projects'' = fill_section ''projects'' 30 [CHR 0x0A] 800 ls sp r ''projects'' \<and>
     r' ''certifications'' =
       fill_section ''certifications'' 15 [CHR 0x0A] 800 ls sp r ''certifications'' \<and>
     r' ''languages'' = fill_section ''languages'' 5 '', '' 300 ls sp r ''languages'' \<and>
     r' ''awards'' = fill_section ''awards'' 15 [CHR 0x0A] 500 ls sp r ''awards''"
proof -
  define r2 where "r2 = fill_skills ls sp (fill_summary ls sp r)"
  obtain E where E: "\<And>r. \<exists>r'. fill_experience ls sp r = Inr r' \<and>
      (\<forall>k. k \<noteq> ''experience'' \<longrightarrow> r' k = r k) \<and>
      r' ''experience'' = (if E = [] then r ''experience'' else Some (take 1500 (join [CHR 0x0A] E)))"
    using fill_experience_run [of ls sp] by blast
  obtain r3 where r3: "fill_experience ls sp r2 = Inr r3"
      "\<forall>k. k \<noteq> ''experience'' \<longrightarrow> r3 k = r2 k"
      "r3 ''experience'' = (if E = [] then r2 ''experience'' else Some (take 1500 (join [CHR 0x0A] E)))"
    using E [of r2] by blast
  obtain re where re: "fill_experience ls sp r = Inr re"
      "re ''experience'' = (if E = [] then r ''experience'' else Some (take 1500 (join [CHR 0x0A] E)))"
    using E [of r] by blast
  define r4 where "r4 = fill_education ls sp r3"
  define rf where "rf = fill_section ''awards'' 15 [CHR 0x0A] 500 ls sp
                (fill_section ''languages'' 5 '', '' 300 ls sp
                  (fill_section ''certifications'' 15 [CHR 0x0A] 800 ls sp
                    (fill_section ''projects'' 30 [CHR 0x0A] 800 ls sp r4)))"
  have run: "fill_sections ls sp r = Inr rf"
    by (simp add: fill_sections_def r2_def [symmetric] r3(1) r4_def rf_def)
  have r2_exp: "r2 ''experience'' = r ''experience''"
    by (simp add: r2_def fill_skills_other fill_summary_other)
  have other: "k \<notin> {''summary'', ''career_objective'', ''skills'', ''experience'', ''education'',
               ''projects'', ''certifications'', ''languages'', ''awards''} \<Longrightarrow> rf k = r k" for k
    using r3(2)
    by (simp add: rf_def r4_def r2_def fill_section_other fill_education_other
        fill_skills_other fill_summary_other)
  have r3_key: "r k \<noteq> None \<Longrightarrow> r3 k \<noteq> None" for k
  proof (cases "k = ''experience''")
    case True
    assume "r k \<noteq> None"
    then show ?thesis using r3(3) r2_exp True by simp
  next
    case False
    assume "r k \<noteq> None"
    then have "r2 k \<noteq> None" by (simp add: r2_def fill_skills_key fill_summary_key)
    then show ?thesis using r3(2) False by simp
  qed
  have key: "r k \<noteq> None \<Longrightarrow> rf k \<noteq> None" for k
    using r3_key [of k] by (simp add: rf_def r4_def fill_section_key fill_education_key)
  have s1: "rf ''summary'' = fill_summary ls sp r ''summary''"
    using r3(2)
    by (simp add: rf_def r4_def r2_def fill_section_other fill_education_other fill_skills_other)
  have s2: "rf ''career_objective'' = fill_summary ls sp r ''career_objective''"
    using r3(2)
    by (simp add: rf_def r4_def r2_def fill_section_other fill_education_other fill_skills_other)
  have "fill_summary ls sp r ''skills'' = r ''skills''"
    by (simp add: fill_summary_other)
  then have "r2 ''skills'' = fill_skills ls sp r ''skills''"
    unfolding r2_def by (rule fill_skills_local)
  then have s3: "rf ''skills'' = fill_skills ls sp r ''skills''"
    using r3(2) by (simp add: rf_def r4_def fill_section_other fill_education_other)
  have "rf ''experience'' = r3 ''experience''"
    by (simp add: rf_def r4_def fill_section_other fill_education_other)
  then have s4: "rf ''experience'' = re ''experience''"
    using r3(3) re(2) r2_exp by simp
  have r3_eq: "k \<noteq> ''experience'' \<Longrightarrow> k \<noteq> ''summary'' \<Longrightarrow> k \<noteq> ''career_objective'' \<Longrightarrow>
      k \<noteq> ''skills'' \<Longrightarrow> r3 k = r k" for k
    using r3(2) by (simp add: r2_def fill_skills_other fill_summary_other)
  have "r4 ''education'' = fill_education ls sp r ''education''"
    unfolding r4_def by (rule fill_education_local) (simp add: r3_eq)
  then have s5: "rf ''education'' = fill_education ls sp r ''education''"
    by (simp add: rf_def fill_section_other)
  have r4_eq: "k \<noteq> ''experience'' \<Longrightarrow> k \<noteq> ''summary'' \<Longrightarrow> k \<noteq> ''career_objective'' \<Longrightarrow>
      k \<noteq> ''skills'' \<Longrightarrow> k \<noteq> ''education'' \<Longrightarrow> r4 k = r k" for k
    by (simp add: r4_def fill_education_other r3_eq)
  have "fill_section ''projects'' 30 [CHR 0x0A] 800 ls sp r4 ''projects'' =
        fill_section ''projects'' 30 [CHR 0x0A] 800 ls sp r ''projects''"
    by (rule fill_section_local) (simp add: r4_eq)
  then have s6: "rf ''projects'' = fill_section ''projects'' 30 [CHR 0x0A] 800 ls sp r ''projects''"
    by (simp add: rf_def fill_section_other)
  have "fill_section ''certifications'' 15 [CHR 0x0A] 800 ls sp
          (fill_section ''projects'' 30 [CHR 0x0A] 800 ls sp r4) ''certifications'' =
        fill_section ''certifications'' 15 [CHR 0x0A] 800 ls sp r ''certifications''"
    by (rule fill_section_local) (simp add: r4_eq fill_section_other)
  then have s7: "rf ''certifications'' =
      fill_section ''certifications'' 15 [CHR 0x0A] 800 ls sp r ''certifications''"
    by (simp add: rf_def fill_section_other)
  have "fill_section ''languages'' 5 '', '' 300 ls sp
          (fill_section ''certifications'' 15 [CHR 0x0A] 800 ls sp
            (fill_section ''projects'' 30 [CHR 0x0A] 800 ls sp r4)) ''languages'' =
        fill_section ''languages'' 5 '', '' 300 ls sp r ''languages''"
    by (rule fill_section_local) (simp add: r4_eq fill_section_other)
  then have s8: "rf ''languages'' = fill_section ''languages'' 5 '', '' 300 ls sp r ''languages''"
    by (simp add: rf_def fill_section_other)
  have s9: "rf ''awards'' = fill_section ''awards'' 15 [CHR 0x0A] 500 ls sp r ''awards''"
    unfolding rf_def by (rule fill_section_local) (simp add: r4_eq fill_section_other)
  show ?thesis
    using run other key s1 s2 s3 s4 s5 s6 s7 s8 s9 re(1) by blast
qed

lemma extract_from_text_run:
  assumes keys: "r ''location'' \<noteq> None" "r ''title'' \<noteq> None" "r ''skills'' \<noteq> None"
    and nonblank: "strip text \<noteq> []"
    and ls: "ls = normalize_lines (strip text)" "ls \<noteq> []"
    and sp: "sp = locate_headers section_patterns ls []"
  shows "\<exists>rf. extract_from_text text r = Inr rf \<and>
     (\<forall>k. k \<notin> {''fullname'', ''email'', ''phone'', ''location'', ''linkedin'', ''github'',
               ''summary'', ''career_objective'', ''skills'', ''experience'', ''education'',
               ''projects'', ''certifications'', ''languages'', ''awards'', ''title''}
          \<longrightarrow> rf k = r k) \<and>
     (\<forall>k. r k \<noteq> None \<longrightarrow> rf k \<noteq> None) \<and>
     (\<exists>rn. detect_name (take 15 ls) r = Inr rn \<and> rf ''fullname'' = rn ''fullname'') \<and>
     rf ''summary'' = fill_summary ls sp r ''summary'' \<and>
     rf ''career_objective'' = fill_summary ls sp r ''career_objective'' \<and>
     rf ''skills'' = fill_skills ls sp r ''skills'' \<and>
     (\<exists>re. fill_experience ls sp r = Inr re \<and> rf ''experience'' = re ''experience'') \<and>
     rf ''education'' = fill_education ls sp r ''education'' \<and>
     rf ''projects'' = fill_section ''projects'' 30 [CHR 0x0A] 800 ls sp r ''projects'' \<and>
     rf ''certifications'' =
       fill_section ''certifications'' 15 [CHR 0x0A] 800 ls sp r ''certifications'' \<and>
     rf ''languages'' = fill_section ''languages'' 5 '', '' 300 ls sp r ''languages'' \<and>
     rf ''awards'' = fill_section ''awards'' 15 [CHR 0x0A] 500 ls sp r ''awards'' \<and>
     (\<exists>rs. rs ''title'' = r ''title'' \<and> rs ''skills'' = rf ''skills'' \<and>
           infer_title ls rs = Inr rf)"
proof -
  let ?t = "strip text"
  obtain r1 where r1: "detect_name (take 15 ls) r = Inr r1"
      "\<forall>k. k \<noteq> ''fullname'' \<longrightarrow> r1 k = r k"
      "r1 ''fullname'' = r ''fullname'' \<or> (\<exists>ln \<in> set (take 15 ls). r1 ''fullname'' = Some ln)"
    using detect_name_run [of "take 15 ls" r] by blast
  define r1' where "r1' = detect_phone ?t (detect_email ?t r1)"
  have r1'_other: "k \<noteq> ''fullname'' \<Longrightarrow> k \<noteq> ''email'' \<Longrightarrow> k \<noteq> ''phone'' \<Longrightarrow> r1' k = r k" for k
    using r1(2) by (simp add: r1'_def detect_phone_other detect_email_other)
  have r1_key: "r k \<noteq> None \<Longrightarrow> r1 k \<noteq> None" for k
    using r1(2,3) by (cases "k = ''fullname''") auto
  have r1'_key: "r k \<noteq> None \<Longrightarrow> r1' k \<noteq> None" for k
  proof -
    assume a: "r k \<noteq> None"
    have e: "detect_email ?t r1 k \<noteq> None"
      using r1_key [OF a] detect_email_key [of r1 ?t] detect_email_other [of k ?t r1]
      by (cases "k = ''email''") auto
    show ?thesis
      using e detect_phone_key [of "detect_email ?t r1" ?t]
        detect_phone_other [of k ?t "detect_email ?t r1"]
      by (cases "k = ''phone''") (auto simp: r1'_def)
  qed
  have "r1' ''location'' \<noteq> None" using keys(1) by (simp add: r1'_other)
  then obtain r2 where r2: "detect_location ls r1' = Inr r2"
      "\<forall>k. k \<noteq> ''location'' \<longrightarrow> r2 k = r1' k" "r2 ''location'' \<noteq> None"
    using detect_location_run [of r1' ls] by blast
  define r2' where "r2' = detect_social ?t r2"
  have r2'_other: "k \<notin> {''fullname'', ''email'', ''phone'', ''location'', ''linkedin'', ''github''}
      \<Longrightarrow> r2' k = r k" for k
    using r2(2) by (simp add: r2'_def detect_social_other r1'_other)
  have r2'_key: "r k \<noteq> None \<Longrightarrow> r2' k \<noteq> None" for k
  proof -
    assume a: "r k \<noteq> None"
    have "r2 k \<noteq> None" using r1'_key [OF a] r2(2,3) by (cases "k = ''location''") auto
    then show ?thesis by (simp add: r2'_def detect_social_key)
  qed
  have r2'_name: "r2' ''fullname'' = r1 ''fullname''"
    using r2(2) by (simp add: r2'_def detect_social_other r1'_def detect_phone_other
        detect_email_other)
  obtain r3 where r3: "fill_sections ls sp r2' = Inr r3"
     "\<forall>k. k \<notin> {''summary'', ''career_objective'', ''skills'', ''experience'', ''education'',
               ''projects'', ''certifications'', ''languages'', ''awards''} \<longrightarrow> r3 k = r2' k"
     "\<forall>k. r2' k \<noteq> None \<longrightarrow> r3 k \<noteq> None"
     "r3 ''summary'' = fill_summary ls sp r2' ''summary''"
     "r3 ''career_objective'' = fill_summary ls sp r2' ''career_objective''"
     "r3 ''skills'' = fill_skills ls sp r2' ''skills''"
     "\<exists>re. fill_experience ls sp r2' = Inr re \<and> r3 ''experience'' = re ''experience''"
     "r3 ''education'' = fill_education ls sp r2' ''education''"
     "r3 ''projects'' = fill_section ''projects'' 30 [CHR 0x0A] 800 ls sp r2' ''projects''"
     "r3 ''certifications'' =
       fill_section ''certifications'' 15 [CHR 0x0A] 800 ls sp r2' ''certifications''"
     "r3 ''languages'' = fill_section ''languages'' 5 '', '' 300 ls sp r2' ''languages''"
     "r3 ''awards'' = fill_section ''awards'' 15 [CHR 0x0A] 500 ls sp r2' ''awards''"
    using fill_sections_run [of ls sp r2'] by blast
  have r3_key: "r k \<noteq> None \<Longrightarrow> r3 k \<noteq> None" for k
    using r2'_key [of k] r3(3) by simp
  obtain rf where rf: "infer_title ls r3 = Inr rf" "\<forall>k. k \<noteq> ''title'' \<longrightarrow> rf k = r3 k"
      "rf ''title'' \<noteq> None"
    using infer_title_run [of r3 ls] r3_key [of "''title''"] r3_key [of "''skills''"] keys
    by blast
  have run: "extract_from_text text r = Inr rf"
    using nonblank ls(2) r1(1) r2(1) r3(1) rf(1)
    by (simp add: extract_from_text_def ls(1) [symmetric] Let_def r1'_def [symmetric]
        r2'_def [symmetric] sp [symmetric])
  have other: "k \<notin> {''fullname'', ''email'', ''phone'', ''location'', ''linkedin'', ''github'',
               ''summary'', ''career_objective'', ''skills'', ''experience'', ''education'',
               ''projects'', ''certifications'', ''languages'', ''awards'', ''title''}
      \<Longrightarrow> rf k = r k" for k
    using rf(2) r3(2) r2'_other [of k] by simp
  have key: "r k \<noteq> None \<Longrightarrow> rf k \<noteq> None" for k
    using r3_key [of k] rf(2,3) by (cases "k = ''title''") auto
  have name: "rf ''fullname'' = r1 ''fullname''"
    using rf(2) r3(2) r2'_name by simp
  have s1: "rf ''summary'' = fill_summary ls sp r ''summary''"
    using rf(2) r3(4) fill_summary_local [of r2' "''summary''" r ls sp] r2'_other by simp
  have s2: "rf ''career_objective'' = fill_summary ls sp r ''career_objective''"
    using rf(2) r3(5) fill_summary_local [of r2' "''career_objective''" r ls sp] r2'_other
    by simp
  have s3: "rf ''skills'' = fill_skills ls sp r ''skills''"
    using rf(2) r3(6) fill_skills_local [of r2' "''skills''" r ls sp] r2'_other by simp
  obtain E where E: "\<And>r. \<exists>r'. fill_experience ls sp r = Inr r' \<and>
      (\<forall>k. k \<noteq> ''experience'' \<longrightarrow> r' k = r k) \<and>
      r' ''experience'' = (if E = [] then r ''experience'' else Some (take 1500 (join [CHR 0x0A] E)))"
    using fill_experience_run [of ls sp] by blast
  obtain re where re: "fill_experience ls sp r = Inr re"
      "re ''experience'' = (if E = [] then r ''experience'' else Some (take 1500 (join [CHR 0x0A] E)))"
    using E [of r] by blast
  have "r3 ''experience'' = (if E = [] then r2' ''experience'' else Some (take 1500 (join [CHR 0x0A] E)))"
    using E [of r2'] r3(7) by auto
  then have s4: "rf ''experience'' = re ''experience''"
    using rf(2) re(2) r2'_other by simp
  have s5: "rf ''education'' = fill_education ls sp r ''education''"
    using rf(2) r3(8) fill_education_local [of r2' "''education''" r ls sp] r2'_other by simp
  have s6: "rf ''projects'' = fill_section ''projects'' 30 [CHR 0x0A] 800 ls sp r ''projects''"
    using rf(2) r3(9) fill_section_local [of r2' "''projects''" r] r2'_other by simp
  have s7: "rf ''certifications'' =
      fill_section ''certifications'' 15 [CHR 0x0A] 800 ls sp r ''certifications''"
    using rf(2) r3(10) fill_section_local [of r2' "''certifications''" r] r2'_other by simp
  have s8: "rf ''languages'' = fill_section ''languages'' 5 '', '' 300 ls sp r ''languages''"
    using rf(2) r3(11) fill_section_local [of r2' "''languages''" r] r2'_other by simp
  have s9: "rf ''awards'' = fill_section ''awards'' 15 [CHR 0x0A] 500 ls sp r ''awards''"
    using rf(2) r3(12) fill_section_local [of r2' "''awards''" r] r2'_other by simp
  have t: "r3 ''title'' = r ''title'' \<and> r3 ''skills'' = rf ''skills''"
    using rf(2) r3(2) r2'_other by simp
  show ?thesis
    using run other key name r1(1) s1 s2 s3 s4 re(1) s5 s6 s7 s8 s9 t rf(1) by blast
qed

section \<open>The claims\<close>

lemma default_keys:
  "get_default_16_fields ''location'' \<noteq> None" "get_default_16_fields ''title'' \<noteq> None"
  "get_default_16_fields ''skills'' \<noteq> None"
  by (simp_all add: get_default_16_fields_def)

lemma extract_from_text_cases:
  assumes "r ''location'' \<noteq> None" "r ''title'' \<noteq> None" "r ''skills'' \<noteq> None"
  shows "extract_from_text all_text r = Inr r \<or>
     (strip all_text \<noteq> [] \<and> normalize_lines (strip all_text) \<noteq> [] \<and>
      (\<exists>rf. extract_from_text all_text r = Inr rf))"
proof (cases "strip all_text = [] \<or> normalize_lines (strip all_text) = []")
  case True
  then show ?thesis by (auto simp: extract_from_text_def Let_def)
next
  case False
  then show ?thesis
    using extract_from_text_run [OF assms, of all_text "normalize_lines (strip all_text)"
        "locate_headers section_patterns (normalize_lines (strip all_text)) []"]
    by blast
qed

lemma try_body_raises:
  assumes "r ''location'' \<noteq> None" "r ''title'' \<noteq> None" "r ''skills'' \<noteq> None"
    and "try_body pdf r = Inl (e, r')"
  shows "r' = r \<and> acquire pdf = Inl e"
proof (cases "acquire pdf")
  case (Inl a)
  then show ?thesis using assms(4) by (simp add: try_body_def)
next
  case (Inr all_text)
  then have "try_body pdf r = extract_from_text all_text r" by (simp add: try_body_def)
  then show ?thesis
    using extract_from_text_cases [OF assms(1-3), of all_text] assms(4) by auto
qed

lemma extract_acquired:
  "acquire pdf = Inr all_text \<Longrightarrow> extract_from_text all_text get_default_16_fields = Inr rf \<Longrightarrow>
   extract_resume_from_pdf pdf = rf"
  by (simp add: extract_resume_from_pdf_def try_body_def)

lemma extract_not_acquired:
  "acquire pdf = Inl e \<Longrightarrow> extract_resume_from_pdf pdf = get_default_16_fields"
  by (simp add: extract_resume_from_pdf_def try_body_def)

lemma extract_blank:
  "acquire pdf = Inr all_text \<Longrightarrow>
   strip all_text = [] \<or> normalize_lines (strip all_text) = [] \<Longrightarrow>
   extract_resume_from_pdf pdf = get_default_16_fields"
  by (auto simp: extract_resume_from_pdf_def try_body_def extract_from_text_def Let_def)

lemma detect_name_no_raise: "detect_name ls r \<noteq> Inl x"
  using detect_name_run [of ls r] by auto

text \<open>
  Claim C5. Whenever the body of the \<^verbatim>\<open>try\<close> statement raises, the dictionary at that
  moment is still the default mapping, and that is what the extractor returns: the
  exception is caught, and the result never differs from the defaults.
\<close>
theorem C5_exception_returns_defaults:
  assumes "try_body pdf get_default_16_fields = Inl (e, result)"
  shows "result = get_default_16_fields \<and>
         extract_resume_from_pdf pdf = get_default_16_fields"
  using try_body_raises [OF default_keys assms] assms
  by (simp add: extract_resume_from_pdf_def)

theorem C5_witness:
  "try_body (Inr [Inr (Some ''Jane Doe''), Inl PdfError]) get_default_16_fields =
     Inl (PdfError, get_default_16_fields) \<and>
   extract_resume_from_pdf (Inr [Inr (Some ''Jane Doe''), Inl PdfError]) = get_default_16_fields"
proof -
  have h: "try_body (Inr [Inr (Some ''Jane Doe''), Inl PdfError]) get_default_16_fields =
     Inl (PdfError, get_default_16_fields)"
    by (simp add: try_body_def acquire_def)
  from C5_exception_returns_defaults [OF h] h show ?thesis by simp
qed

text \<open>
  Claim C2. For empty or whitespace-only text the extractor returns exactly the default
  mapping: title empty, fullname \<open>Your Name\<close>, summary the loading message, every other
  key the empty string.
\<close>
theorem C2_blank_text_gives_defaults:
  assumes "acquire pdf = Inr all_text" and "list_all isspace all_text"
  shows "extract_resume_from_pdf pdf = get_default_16_fields \<and>
         extract_resume_from_pdf pdf ''title'' = Some '''' \<and>
         extract_resume_from_pdf pdf ''fullname'' = Some ''Your Name'' \<and>
         extract_resume_from_pdf pdf ''summary'' =
           Some ''PDF loaded successfully! Edit your details above.'' \<and>
         (\<forall>k \<in> set field_names - {''title'', ''fullname'', ''summary''}.
            extract_resume_from_pdf pdf k = Some '''')"
proof -
  have e: "extract_resume_from_pdf pdf = get_default_16_fields"
    using assms extract_blank [of pdf all_text] strip_blank [of all_text] by simp
  have d: "get_default_16_fields ''title'' = Some '''' \<and>
         get_default_16_fields ''fullname'' = Some ''Your Name'' \<and>
         get_default_16_fields ''summary'' =
           Some ''PDF loaded successfully! Edit your details above.'' \<and>
         (\<forall>k \<in> set field_names - {''title'', ''fullname'', ''summary''}.
            get_default_16_fields k = Some '''')"
    by (auto simp: get_default_16_fields_def field_names_def)
  show ?thesis unfolding e using d by simp
qed

theorem C2_witness:
  "acquire (Inr [Inr (Some ''   ''), Inr None]) = Inr (CHR 0x0A # ''   '') \<and>
   list_all isspace (CHR 0x0A # ''   '') \<and>
   extract_resume_from_pdf (Inr [Inr (Some ''   ''), Inr None]) = get_default_16_fields \<and>
   extract_resume_from_pdf (Inr [Inr (Some ''   ''), Inr None]) ''email'' = Some ''''"
proof -
  have a: "acquire (Inr [Inr (Some ''   ''), Inr None]) = Inr (CHR 0x0A # ''   '')"
    by (simp add: acquire_def)
  have b: "list_all isspace (CHR 0x0A # ''   '')"
    by (simp add: isspace_def in_range_def)
  from C2_blank_text_gives_defaults [OF a b] a b show ?thesis
    by (simp add: field_names_def get_default_16_fields_def)
qed

text \<open>
  Claim C10. The division \<^verbatim>\<open>alpha_count / len(ln)\<close> of the name scan never divides by zero: no
  normalized line is empty, and the scan raises on no list of lines at all, since the
  division is guarded by \<^verbatim>\<open>alpha_count > 0\<close>.
\<close>
theorem C10_name_ratio_no_division_by_zero:
  "(\<forall>ln \<in> set (normalize_lines all_text). length ln \<noteq> 0) \<and>
   (\<forall>result x. detect_name (take 15 (normalize_lines all_text)) result \<noteq> Inl x) \<and>
   (\<forall>x. detect_name ls result \<noteq> Inl x)"
  using normalize_lines_nonempty [of _ all_text] detect_name_no_raise by auto

theorem C10_witness:
  "normalize_lines ''Jane Doe'' = [''Jane Doe''] \<and> length ''Jane Doe'' \<noteq> 0 \<and>
   detect_name [''Jane Doe''] get_default_16_fields \<noteq> Inl (ZeroDivisionError, get_default_16_fields)"
proof -
  have a: "normalize_lines ''Jane Doe'' = [''Jane Doe'']" by code_simp
  from C10_name_ratio_no_division_by_zero [of "''Jane Doe''" "[''Jane Doe'']" get_default_16_fields] a
  show ?thesis by simp
qed

text \<open>
  Claim C1. On every path, the exception path included, the returned mapping has exactly
  the 20 keys, each bound to a string.
\<close>
theorem C1_all_keys_present:
  "dom (extract_resume_from_pdf pdf) = set field_names \<and>
   (\<forall>k \<in> set field_names. \<exists>v. extract_resume_from_pdf pdf k = Some v)"
proof -
  have "dom (extract_resume_from_pdf pdf) = set field_names"
  proof (cases "acquire pdf")
    case (Inl e)
    then show ?thesis by (simp add: extract_not_acquired dom_default)
  next
    case (Inr all_text)
    show ?thesis
    proof (cases "strip all_text = [] \<or> normalize_lines (strip all_text) = []")
      case True
      then show ?thesis using Inr extract_blank [of pdf all_text] by (simp add: dom_default)
    next
      case False
      then obtain rf where rf: "extract_from_text all_text get_default_16_fields = Inr rf"
        "\<forall>k. k \<notin> {''fullname'', ''email'', ''phone'', ''location'', ''linkedin'', ''github'',
               ''summary'', ''career_objective'', ''skills'', ''experience'', ''education'',
               ''projects'', ''certifications'', ''languages'', ''awards'', ''title''}
          \<longrightarrow> rf k = get_default_16_fields k"
        "\<forall>k. get_default_16_fields k \<noteq> None \<longrightarrow> rf k \<noteq> None"
        using extract_from_text_run [OF default_keys, of all_text "normalize_lines (strip all_text)"
          "locate_headers section_patterns (normalize_lines (strip all_text)) []"]
        by blast
      have 1: "dom get_default_16_fields \<subseteq> dom rf" using rf(3) by auto
      have 2: "k \<in> dom rf \<Longrightarrow> k \<in> set field_names" for k
      proof (cases "k \<in> {''fullname'', ''email'', ''phone'', ''location'', ''linkedin'', ''github'',
               ''summary'', ''career_objective'', ''skills'', ''experience'', ''education'',
               ''projects'', ''certifications'', ''languages'', ''awards'', ''title''}")
        case True
        then show ?thesis by (auto simp: field_names_def)
      next
        case False
        assume "k \<in> dom rf"
        then have "k \<in> dom get_default_16_fields" using rf(2) False by (auto simp: domIff)
        then show ?thesis by (simp add: dom_default)
      qed
      have "dom rf = set field_names" using 1 2 dom_default by auto
      then show ?thesis using extract_acquired [OF Inr rf(1)] by simp
    qed
  qed
  then show ?thesis by (auto simp: domIff)
qed

theorem C1_witness:
  "''email'' \<in> set field_names \<and>
   (\<exists>v. extract_resume_from_pdf (Inr [Inr (Some ''Jane Doe'')]) ''email'' = Some v) \<and>
   dom (extract_resume_from_pdf (Inl PdfError)) = set field_names"
  using C1_all_keys_present [of "Inr [Inr (Some ''Jane Doe'')]"]
    C1_all_keys_present [of "Inl PdfError"]
  by (simp add: field_names_def)

lemma extract_cases:
  obtains (defaults) "extract_resume_from_pdf pdf = get_default_16_fields"
  | (parsed) all_text ls sp rn re where
      "acquire pdf = Inr all_text" "strip all_text \<noteq> []"
      "ls = normalize_lines (strip all_text)" "ls \<noteq> []"
      "sp = locate_headers section_patterns ls []"
      "detect_name (take 15 ls) get_default_16_fields = Inr rn"
      "extract_resume_from_pdf pdf ''fullname'' = rn ''fullname''"
      "extract_resume_from_pdf pdf ''summary'' =
         fill_summary ls sp get_default_16_fields ''summary''"
      "extract_resume_from_pdf pdf ''career_objective'' =
         fill_summary ls sp get_default_16_fields ''career_objective''"
      "extract_resume_from_pdf pdf ''skills'' = fill_skills ls sp get_default_16_fields ''skills''"
      "fill_experience ls sp get_default_16_fields = Inr re"
      "extract_resume_from_pdf pdf ''experience'' = re ''experience''"
      "extract_resume_from_pdf pdf ''education'' =
         fill_education ls sp get_default_16_fields ''education''"
      "extract_resume_from_pdf pdf ''projects'' =
         fill_section ''projects'' 30 [CHR 0x0A] 800 ls sp get_default_16_fields ''projects''"
      "extract_resume_from_pdf pdf ''certifications'' =
         fill_section ''certifications'' 15 [CHR 0x0A] 800 ls sp get_default_16_fields
           ''certifications''"
      "extract_resume_from_pdf pdf ''languages'' =
         fill_section ''languages'' 5 '', '' 300 ls sp get_default_16_fields ''languages''"
      "extract_resume_from_pdf pdf ''awards'' =
         fill_section ''awards'' 15 [CHR 0x0A] 500 ls sp get_default_16_fields ''awards''"
proof (cases "acquire pdf")
  case (Inl e)
  then show ?thesis using defaults by (simp add: extract_not_acquired)
next
  case (Inr all_text)
  show ?thesis
  proof (cases "strip all_text = [] \<or> normalize_lines (strip all_text) = []")
    case True
    then show ?thesis using Inr extract_blank [of pdf all_text] defaults by simp
  next
    case False
    define ls where "ls = normalize_lines (strip all_text)"
    define sp where "sp = locate_headers section_patterns ls []"
    have nb: "strip all_text \<noteq> []" and ne: "ls \<noteq> []" using False by (simp_all add: ls_def)
    from extract_from_text_run [OF default_keys nb ls_def ne sp_def]
    obtain rf where rf: "extract_from_text all_text get_default_16_fields = Inr rf"
      and name: "\<exists>rn. detect_name (take 15 ls) get_default_16_fields = Inr rn \<and>
                   rf ''fullname'' = rn ''fullname''"
      and s: "rf ''summary'' = fill_summary ls sp get_default_16_fields ''summary''"
        "rf ''career_objective'' = fill_summary ls sp get_default_16_fields ''career_objective''"
        "rf ''skills'' = fill_skills ls sp get_default_16_fields ''skills''"
      and ex: "\<exists>re. fill_experience ls sp get_default_16_fields = Inr re \<and>
                 rf ''experience'' = re ''experience''"
      and s': "rf ''education'' = fill_education ls sp get_default_16_fields ''education''"
        "rf ''projects'' =
           fill_section ''projects'' 30 [CHR 0x0A] 800 ls sp get_default_16_fields ''projects''"
        "rf ''certifications'' =
           fill_section ''certifications'' 15 [CHR 0x0A] 800 ls sp get_default_16_fields
             ''certifications''"
        "rf ''languages'' =
           fill_section ''languages'' 5 '', '' 300 ls sp get_default_16_fields ''languages''"
        "rf ''awards'' =
           fill_section ''awards'' 15 [CHR 0x0A] 500 ls sp get_default_16_fields ''awards''"
      by blast
    from name obtain rn where rn: "detect_name (take 15 ls) get_default_16_fields = Inr rn"
      "rf ''fullname'' = rn ''fullname''" by blast
    from ex obtain re where re: "fill_experience ls sp get_default_16_fields = Inr re"
      "rf ''experience'' = re ''experience''" by blast
    have e: "extract_resume_from_pdf pdf = rf" using extract_acquired [OF Inr rf] .
    show ?thesis
      using parsed [OF Inr nb ls_def ne sp_def rn(1) _ _ _ _ re(1)] rn(2) s re(2) s'
      unfolding e by blast
  qed
qed

lemma default_values:
  "get_default_16_fields ''fullname'' = Some ''Your Name''"
  "get_default_16_fields ''summary'' = Some ''PDF loaded successfully! Edit your details above.''"
  "get_default_16_fields ''career_objective'' = Some ''''"
  "get_default_16_fields ''skills'' = Some ''''"
  "get_default_16_fields ''experience'' = Some ''''"
  "get_default_16_fields ''education'' = Some ''''"
  "get_default_16_fields ''projects'' = Some ''''"
  "get_default_16_fields ''certifications'' = Some ''''"
  "get_default_16_fields ''languages'' = Some ''''"
  "get_default_16_fields ''awards'' = Some ''''"
  "get_default_16_fields ''title'' = Some ''''"
  by (simp_all add: get_default_16_fields_def)

lemma cap_summary:
  "\<exists>v. fill_summary ls sp get_default_16_fields ''summary'' = Some v \<and> length v \<le> 1000"
  by (simp add: fill_summary_def Let_def default_values)

lemma cap_skills:
  "\<exists>v. fill_skills ls sp get_default_16_fields ''skills'' = Some v \<and> length v \<le> 500"
  by (simp add: fill_skills_def Let_def default_values)

lemma cap_education:
  "\<exists>v. fill_education ls sp get_default_16_fields ''education'' = Some v \<and> length v \<le> 1000"
  by (simp add: fill_education_def Let_def default_values)

lemma cap_section:
  "get_default_16_fields f = Some '''' \<Longrightarrow>
   \<exists>v. fill_section f n sep cap ls sp get_default_16_fields f = Some v \<and> length v \<le> cap"
  by (simp add: fill_section_def Let_def)

lemma cap_experience:
  assumes "fill_experience ls sp get_default_16_fields = Inr re"
  shows "\<exists>v. re ''experience'' = Some v \<and> length v \<le> 1500"
proof -
  obtain E r' where "fill_experience ls sp get_default_16_fields = Inr r'"
    "r' ''experience'' = (if E = [] then get_default_16_fields ''experience''
                          else Some (take 1500 (join [CHR 0x0A] E)))"
    using fill_experience_run [of ls sp] by blast
  then show ?thesis using assms by (simp add: default_values)
qed

text \<open>
  Claim C3. For every input the section fields respect their caps: summary 1000, skills 500,
  experience 1500, education 1000, projects 800, certifications 800, languages 300 and
  awards 500 characters.
\<close>
theorem C3_length_caps:
  "\<exists>summary skills experience education projects certifications languages awards.
     extract_resume_from_pdf pdf ''summary'' = Some summary \<and> length summary \<le> 1000 \<and>
     extract_resume_from_pdf pdf ''skills'' = Some skills \<and> length skills \<le> 500 \<and>
     extract_resume_from_pdf pdf ''experience'' = Some experience \<and> length experience \<le> 1500 \<and>
     extract_resume_from_pdf pdf ''education'' = Some education \<and> length education \<le> 1000 \<and>
     extract_resume_from_pdf pdf ''projects'' = Some projects \<and> length projects \<le> 800 \<and>
     extract_resume_from_pdf pdf ''certifications'' = Some certifications \<and>
       length certifications \<le> 800 \<and>
     extract_resume_from_pdf pdf ''languages'' = Some languages \<and> length languages \<le> 300 \<and>
     extract_resume_from_pdf pdf ''awards'' = Some awards \<and> length awards \<le> 500"
proof (cases pdf rule: extract_cases)
  case defaults
  then show ?thesis by (simp add: default_values)
next
  case (parsed all_text ls sp rn re)
  show ?thesis
    unfolding parsed(8,10,12-17)
    using cap_summary [of ls sp] cap_skills [of ls sp] cap_experience [OF parsed(11)]
      cap_education [of ls sp]
      cap_section [OF default_values(7), of 30 "[CHR 0x0A]" 800 ls sp]
      cap_section [OF default_values(8), of 15 "[CHR 0x0A]" 800 ls sp]
      cap_section [OF default_values(9), of 5 "'', ''" 300 ls sp]
      cap_section [OF default_values(10), of 15 "[CHR 0x0A]" 500 ls sp]
    by blast
qed

section \<open>Evaluation on concrete texts\<close>

text \<open>
  Concrete texts are evaluated by rewriting: the table gives \<^const>\<open>lower_char\<close> on the
  printable ASCII characters, tab, line feed and carriage return.
\<close>

lemma lower_char_table:
  "lower_char (CHR 0x09) = CHR 0x09"
  "lower_char (CHR 0x0A) = CHR 0x0A"
  "lower_char (CHR 0x0D) = CHR 0x0D"
  "lower_char (CHR 0x20) = CHR 0x20"
  "lower_char (CHR 0x21) = CHR 0x21"
  "lower_char (CHR 0x22) = CHR 0x22"
  "lower_char (CHR 0x23) = CHR 0x23"
  "lower_char (CHR 0x24) = CHR 0x24"
  "lower_char (CHR 0x25) = CHR 0x25"
  "lower_char (CHR 0x26) = CHR 0x26"
  "lower_char (CHR 0x27) = CHR 0x27"
  "lower_char (CHR 0x28) = CHR 0x28"
  "lower_char (CHR 0x29) = CHR 0x29"
  "lower_char (CHR 0x2A) = CHR 0x2A"
  "lower_char (CHR 0x2B) = CHR 0x2B"
  "lower_char (CHR 0x2C) = CHR 0x2C"
  "lower_char (CHR 0x2D) = CHR 0x2D"
  "lower_char (CHR 0x2E) = CHR 0x2E"
  "lower_char (CHR 0x2F) = CHR 0x2F"
  "lower_char (CHR 0x30) = CHR 0x30"
  "lower_char (CHR 0x31) = CHR 0x31"
  "lower_char (CHR 0x32) = CHR 0x32"
  "lower_char (CHR 0x33) = CHR 0x33"
  "lower_char (CHR 0x34) = CHR 0x34"
  "lower_char (CHR 0x35) = CHR 0x35"
  "lower_char (CHR 0x36) = CHR 0x36"
  "lower_char (CHR 0x37) = CHR 0x37"
  "lower_char (CHR 0x38) = CHR 0x38"
  "lower_char (CHR 0x39) = CHR 0x39"
  "lower_char (CHR 0x3A) = CHR 0x3A"
  "lower_char (CHR 0x3B) = CHR 0x3B"
  "lower_char (CHR 0x3C) = CHR 0x3C"
  "lower_char (CHR 0x3D) = CHR 0x3D"
  "lower_char (CHR 0x3E) = CHR 0x3E"
  "lower_char (CHR 0x3F) = CHR 0x3F"
  "lower_char (CHR 0x40) = CHR 0x40"
  "lower_char (CHR 0x41) = CHR 0x61"
  "lower_char (CHR 0x42) = CHR 0x62"
  "lower_char (CHR 0x43) = CHR 0x63"
  "lower_char (CHR 0x44) = CHR 0x64"
  "lower_char (CHR 0x45) = CHR 0x65"
  "lower_char (CHR 0x46) = CHR 0x66"
  "lower_char (CHR 0x47) = CHR 0x67"
  "lower_char (CHR 0x48) = CHR 0x68"
  "lower_char (CHR 0x49) = CHR 0x69"
  "lower_char (CHR 0x4A) = CHR 0x6A"
  "lower_char (CHR 0x4B) = CHR 0x6B"
  "lower_char (CHR 0x4C) = CHR 0x6C"
  "lower_char (CHR 0x4D) = CHR 0x6D"
  "lower_char (CHR 0x4E) = CHR 0x6E"
  "lower_char (CHR 0x4F) = CHR 0x6F"
  "lower_char (CHR 0x50) = CHR 0x70"
  "lower_char (CHR 0x51) = CHR 0x71"
  "lower_char (CHR 0x52) = CHR 0x72"
  "lower_char (CHR 0x53) = CHR 0x73"
  "lower_char (CHR 0x54) = CHR 0x74"
  "lower_char (CHR 0x55) = CHR 0x75"
  "lower_char (CHR 0x56) = CHR 0x76"
  "lower_char (CHR 0x57) = CHR 0x77"
  "lower_char (CHR 0x58) = CHR 0x78"
  "lower_char (CHR 0x59) = CHR 0x79"
  "lower_char (CHR 0x5A) = CHR 0x7A"
  "lower_char (CHR 0x5B) = CHR 0x5B"
  "lower_char (CHR 0x5C) = CHR 0x5C"
  "lower_char (CHR 0x5D) = CHR 0x5D"
  "lower_char (CHR 0x5E) = CHR 0x5E"
  "lower_char (CHR 0x5F) = CHR 0x5F"
  "lower_char (CHR 0x60) = CHR 0x60"
  "lower_char (CHR 0x61) = CHR 0x61"
  "lower_char (CHR 0x62) = CHR 0x62"
  "lower_char (CHR 0x63) = CHR 0x63"
  "lower_char (CHR 0x64) = CHR 0x64"
  "lower_char (CHR 0x65) = CHR 0x65"
  "lower_char (CHR 0x66) = CHR 0x66"
  "lower_char (CHR 0x67) = CHR 0x67"
  "lower_char (CHR 0x68) = CHR 0x68"
  "lower_char (CHR 0x69) = CHR 0x69"
  "lower_char (CHR 0x6A) = CHR 0x6A"
  "lower_char (CHR 0x6B) = CHR 0x6B"
  "lower_char (CHR 0x6C) = CHR 0x6C"
  "lower_char (CHR 0x6D) = CHR 0x6D"
  "lower_char (CHR 0x6E) = CHR 0x6E"
  "lower_char (CHR 0x6F) = CHR 0x6F"
  "lower_char (CHR 0x70) = CHR 0x70"
  "lower_char (CHR 0x71) = CHR 0x71"
  "lower_char (CHR 0x72) = CHR 0x72"
  "lower_char (CHR 0x73) = CHR 0x73"
  "lower_char (CHR 0x74) = CHR 0x74"
  "lower_char (CHR 0x75) = CHR 0x75"
  "lower_char (CHR 0x76) = CHR 0x76"
  "lower_char (CHR 0x77) = CHR 0x77"
  "lower_char (CHR 0x78) = CHR 0x78"
  "lower_char (CHR 0x79) = CHR 0x79"
  "lower_char (CHR 0x7A) = CHR 0x7A"
  "lower_char (CHR 0x7B) = CHR 0x7B"
  "lower_char (CHR 0x7C) = CHR 0x7C"
  "lower_char (CHR 0x7D) = CHR 0x7D"
  "lower_char (CHR 0x7E) = CHR 0x7E"
  by code_simp+

lemmas eval_defs =
  lower_char_table lower_def isspace_def isalpha_def isdigit_def isword_def in_range_def
  is_linebreak_def strip_def startswith_def splitlines_def split_def normalize_lines_def
  lit_def ilit_def rplus_def spaced_def whole_def opt_s_def at_boundary_def
  re_search_def re_match_def re_split_def matches_any_def
  section_patterns_def page_pattern_def email_pattern_def phone_patterns_def social_pattern_def
  skill_delimiter_def cities_def degree_words_def title_keywords_def
  slice_def section_end_def get_section_content_def
  getitem_def detect_email_def detect_phone_def detect_location_def detect_link_def
  detect_social_def fill_summary_def fill_skills_def fill_experience_def fill_education_def
  fill_section_def fill_sections_def infer_title_def extract_from_text_def acquire_def
  try_body_def extract_resume_from_pdf_def get_default_16_fields_def Let_def

lemma summary_value:
  "fill_summary ls sp get_default_16_fields ''summary'' =
     (if get_section_content ls sp ''summary'' 10 = []
      then Some ''PDF loaded successfully! Edit your details above.''
      else Some (take 1000 (join '' '' (get_section_content ls sp ''summary'' 10))))"
  by (simp add: fill_summary_def Let_def default_values)

lemma career_objective_value:
  "fill_summary ls sp get_default_16_fields ''career_objective'' =
     (if get_section_content ls sp ''summary'' 10 \<noteq> [] \<and>
         list_ex (\<lambda>ln. re_search (spaced ''career'' ''objective'') ln \<noteq> None) ls
      then Some (take 1000 (join '' '' (get_section_content ls sp ''summary'' 10)))
      else Some '''')"
  by (simp add: fill_summary_def Let_def default_values)

lemma section_text_nonempty:
  assumes "get_section_content ls sp f n \<noteq> []" and "0 < cap"
  shows "take cap (join sep (get_section_content ls sp f n)) \<noteq> []"
proof -
  have "\<forall>x \<in> set (get_section_content ls sp f n). x \<noteq> []"
    using get_section_content_long [of _ ls sp f n] by fastforce
  then show ?thesis using assms join_nonempty take_nonempty by blast
qed

lemma get_section_content_Nil: "get_section_content [] sp f n = []"
  by (simp add: get_section_content_def slice_def Let_def split: option.splits)

lemma normalize_lines_Nil: "normalize_lines [] = []"
  by (simp add: normalize_lines_def splitlines_def)

lemma get_section_content_subset: "set (get_section_content ls sp f n) \<subseteq> set ls"
  by (auto simp: get_section_content_def slice_def Let_def split: option.splits
      dest: in_set_takeD in_set_dropD)

text \<open>
  Claim C9. On every path the returned fullname and summary are not empty: fullname is the
  placeholder or one of the first 15 lines, of 2 to 4 words; summary is the placeholder or
  the capped space-join of the summary section slice of the document, which is then not
  empty and made of lines of the document with 10 characters or more.
\<close>
theorem C9_fullname_summary_nonempty:
  "\<exists>fullname summary.
     extract_resume_from_pdf pdf ''fullname'' = Some fullname \<and> fullname \<noteq> [] \<and>
     extract_resume_from_pdf pdf ''summary'' = Some summary \<and> summary \<noteq> [] \<and>
     (fullname = ''Your Name'' \<or>
      (2 \<le> length (split fullname) \<and> length (split fullname) \<le> 4 \<and>
       (\<exists>all_text. acquire pdf = Inr all_text \<and>
          fullname \<in> set (take 15 (normalize_lines (strip all_text)))))) \<and>
     (summary = ''PDF loaded successfully! Edit your details above.'' \<or>
      (\<exists>all_text lines summary_lines.
         acquire pdf = Inr all_text \<and> lines = normalize_lines (strip all_text) \<and>
         summary_lines =
           get_section_content lines (locate_headers section_patterns lines []) ''summary'' 10 \<and>
         summary_lines \<noteq> [] \<and> set summary_lines \<subseteq> set lines \<and>
         list_all (\<lambda>ln. 10 \<le> length ln) summary_lines \<and>
         summary = take 1000 (join '' '' summary_lines)))"
proof (cases pdf rule: extract_cases)
  case defaults
  then show ?thesis by (simp add: default_values)
next
  case (parsed all_text ls sp rn re)
  let ?S = "get_section_content ls sp ''summary'' 10"
  have n: "rn ''fullname'' = Some ''Your Name'' \<or>
      (\<exists>ln \<in> set (take 15 ls). rn ''fullname'' = Some ln \<and>
         2 \<le> length (split ln) \<and> length (split ln) \<le> 4 \<and> ln \<noteq> [])"
    using detect_name_run [of "take 15 ls" get_default_16_fields] parsed(6)
    by (auto simp: default_values)
  have name: "\<exists>fullname. extract_resume_from_pdf pdf ''fullname'' = Some fullname \<and>
      fullname \<noteq> [] \<and>
      (fullname = ''Your Name'' \<or>
       (2 \<le> length (split fullname) \<and> length (split fullname) \<le> 4 \<and>
        (\<exists>all_text. acquire pdf = Inr all_text \<and>
           fullname \<in> set (take 15 (normalize_lines (strip all_text))))))"
    using n parsed(1,3) unfolding parsed(7) by auto
  have summary: "\<exists>summary. extract_resume_from_pdf pdf ''summary'' = Some summary \<and>
      summary \<noteq> [] \<and>
      (summary = ''PDF loaded successfully! Edit your details above.'' \<or>
       (\<exists>all_text lines summary_lines.
          acquire pdf = Inr all_text \<and> lines = normalize_lines (strip all_text) \<and>
          summary_lines =
            get_section_content lines (locate_headers section_patterns lines []) ''summary'' 10 \<and>
          summary_lines \<noteq> [] \<and> set summary_lines \<subseteq> set lines \<and>
          list_all (\<lambda>ln. 10 \<le> length ln) summary_lines \<and>
          summary = take 1000 (join '' '' summary_lines)))"
  proof (cases "?S = []")
    case True
    then show ?thesis unfolding parsed(8) summary_value by simp
  next
    case False
    have long: "list_all (\<lambda>ln. 10 \<le> length ln) ?S"
      using get_section_content_long [of _ ls sp "''summary''" 10] by (simp add: list_all_iff)
    have ne: "take 1000 (join '' '' ?S) \<noteq> []"
      using section_text_nonempty [OF False, of 1000 "'' ''"] by simp
    have sub: "set ?S \<subseteq> set ls" by (rule get_section_content_subset)
    have tied: "\<exists>all_text lines summary_lines.
          acquire pdf = Inr all_text \<and> lines = normalize_lines (strip all_text) \<and>
          summary_lines =
            get_section_content lines (locate_headers section_patterns lines []) ''summary'' 10 \<and>
          summary_lines \<noteq> [] \<and> set summary_lines \<subseteq> set lines \<and>
          list_all (\<lambda>ln. 10 \<le> length ln) summary_lines \<and>
          take 1000 (join '' '' ?S) = take 1000 (join '' '' summary_lines)"
      using parsed(1) parsed(3) False sub long unfolding parsed(5) by blast
    show ?thesis unfolding parsed(8) summary_value using False ne tied by simp
  qed
  from name summary show ?thesis by blast
qed

theorem C9_witness:
  "extract_resume_from_pdf
     (Inr [Inr (Some (''Jane Doe'' @ [CHR 0x0A] @ ''SUMMARY'' @ [CHR 0x0A] @ ''Builds APIs''))])
     ''fullname'' = Some ''Jane Doe'' \<and>
   length (split ''Jane Doe'') = 2 \<and>
   get_section_content [''Jane Doe'', ''SUMMARY'', ''Builds APIs'']
     (locate_headers section_patterns [''Jane Doe'', ''SUMMARY'', ''Builds APIs''] [])
     ''summary'' 10 = [''Builds APIs''] \<and>
   extract_resume_from_pdf
     (Inr [Inr (Some (''Jane Doe'' @ [CHR 0x0A] @ ''SUMMARY'' @ [CHR 0x0A] @ ''Builds APIs''))])
     ''summary'' = Some ''Builds APIs''"
proof -
  let ?pdf = "Inr [Inr (Some (''Jane Doe'' @ [CHR 0x0A] @ ''SUMMARY'' @ [CHR 0x0A] @ ''Builds APIs''))]"
  let ?ls = "[''Jane Doe'', ''SUMMARY'', ''Builds APIs'']"
  have a: "extract_resume_from_pdf ?pdf ''fullname'' = Some ''Jane Doe''"
    by (simp add: eval_defs)
  have b: "extract_resume_from_pdf ?pdf ''summary'' = Some ''Builds APIs''"
    by (simp add: eval_defs)
  have c: "length (split ''Jane Doe'') = 2" by (simp add: eval_defs)
  have s: "get_section_content ?ls (locate_headers section_patterns ?ls []) ''summary'' 10 =
      [''Builds APIs'']"
    by (simp add: eval_defs)
  from C9_fullname_summary_nonempty [of ?pdf] a b c s
  show ?thesis by simp
qed

text \<open>
  Claim C8. When the summary section slice is not empty, the returned summary is the
  space-join of its lines capped at 1000 characters; career_objective is that same text
  if some line of the document matches \<^verbatim>\<open>career\s+objective\<close>, and the empty string otherwise.
\<close>
theorem C8_summary_and_career_objective:
  assumes "acquire pdf = Inr all_text"
    and "lines = normalize_lines (strip all_text)"
    and "section_positions = locate_headers section_patterns lines []"
    and "summary_lines = get_section_content lines section_positions ''summary'' 10"
    and "summary_lines \<noteq> []"
  shows "extract_resume_from_pdf pdf ''summary'' = Some (take 1000 (join '' '' summary_lines)) \<and>
         extract_resume_from_pdf pdf ''career_objective'' =
           Some (if list_ex (\<lambda>ln. re_search (spaced ''career'' ''objective'') ln \<noteq> None) lines
                 then take 1000 (join '' '' summary_lines) else '''')"
proof -
  have ne: "lines \<noteq> []" using assms(4,5) get_section_content_Nil by auto
  then have nb: "strip all_text \<noteq> []" using assms(2) normalize_lines_Nil by auto
  from extract_from_text_run [OF default_keys nb assms(2) ne assms(3)]
  obtain rf where rf: "extract_from_text all_text get_default_16_fields = Inr rf"
    "rf ''summary'' = fill_summary lines section_positions get_default_16_fields ''summary''"
    "rf ''career_objective'' =
       fill_summary lines section_positions get_default_16_fields ''career_objective''"
    by blast
  have e: "extract_resume_from_pdf pdf = rf" using extract_acquired [OF assms(1) rf(1)] .
  show ?thesis
    unfolding e rf(2,3) summary_value career_objective_value using assms(4,5) by simp
qed

theorem C8_witness:
  "acquire (Inr [Inr (Some (''Career Objective'' @ [CHR 0x0A] @ ''Build reliable systems''))]) =
     Inr (CHR 0x0A # ''Career Objective'' @ [CHR 0x0A] @ ''Build reliable systems'') \<and>
   get_section_content [''Career Objective'', ''Build reliable systems'']
     (locate_headers section_patterns [''Career Objective'', ''Build reliable systems''] [])
     ''summary'' 10 = [''Build reliable systems''] \<and>
   extract_resume_from_pdf
     (Inr [Inr (Some (''Career Objective'' @ [CHR 0x0A] @ ''Build reliable systems''))])
     ''summary'' = Some ''Build reliable systems'' \<and>
   extract_resume_from_pdf
     (Inr [Inr (Some (''Career Objective'' @ [CHR 0x0A] @ ''Build reliable systems''))])
     ''career_objective'' = Some ''Build reliable systems''"
proof -
  let ?pdf = "Inr [Inr (Some (''Career Objective'' @ [CHR 0x0A] @ ''Build reliable systems''))]"
  let ?t = "CHR 0x0A # ''Career Objective'' @ [CHR 0x0A] @ ''Build reliable systems''"
  let ?ls = "[''Career Objective'', ''Build reliable systems'']"
  have a: "acquire ?pdf = Inr ?t" by (simp add: acquire_def)
  have l: "normalize_lines (strip ?t) = ?ls" by (simp add: eval_defs)
  have p: "locate_headers section_patterns ?ls [] = [(''summary'', 0)]"
    by (simp add: eval_defs)
  have s: "get_section_content ?ls [(''summary'', 0)] ''summary'' 10 = [''Build reliable systems'']"
    by (simp add: eval_defs)
  have c: "list_ex (\<lambda>ln. re_search (spaced ''career'' ''objective'') ln \<noteq> None) ?ls"
    by (simp add: eval_defs)
  have n: "[''Build reliable systems''] \<noteq> []" by simp
  have s': "[''Build reliable systems''] =
      get_section_content ?ls (locate_headers section_patterns ?ls []) ''summary'' 10"
    unfolding p s by simp
  from C8_summary_and_career_objective [OF a l [symmetric] refl s' n] a p s c
  show ?thesis by simp
qed

lemma first_header_None:
  "\<not> list_ex (matches_any pats) ls \<Longrightarrow> first_header pats ls i = None"
  by (induction ls arbitrary: i) auto

lemma locate_headers_absent:
  "\<forall>pats. (f, pats) \<in> set ps \<longrightarrow> first_header pats ls 0 = None \<Longrightarrow>
   map_of (locate_headers ps ls acc) f = map_of acc f"
proof (induction ps arbitrary: acc)
  case Nil
  then show ?case by simp
next
  case (Cons a ps)
  obtain g pats where a: "a = (g, pats)" by (cases a)
  show ?case
  proof (cases "first_header pats ls 0")
    case None
    then show ?thesis using Cons a by simp
  next
    case (Some i)
    then have "g \<noteq> f" using Cons.prems a by auto
    then show ?thesis using Cons Some a by (simp add: update_conv')
  qed
qed

lemma patterns_for_mem: "(f, pats) \<in> set section_patterns \<Longrightarrow> patterns_for f = pats"
proof -
  assume m: "(f, pats) \<in> set section_patterns"
  have "distinct (map fst section_patterns)" by (simp add: section_patterns_def)
  then have "map_of section_patterns f = Some pats" using m by (rule map_of_is_SomeI)
  then show ?thesis by (simp add: patterns_for_def)
qed

lemma no_header_no_position:
  assumes "\<not> list_ex (matches_any (patterns_for f)) ls"
  shows "map_of (locate_headers section_patterns ls []) f = None"
proof -
  have "\<forall>pats. (f, pats) \<in> set section_patterns \<longrightarrow> first_header pats ls 0 = None"
    using assms patterns_for_mem first_header_None by fastforce
  then show ?thesis using locate_headers_absent [of f section_patterns ls "[]"] by simp
qed

text \<open>
  Claim C7. When no line matches an experience header pattern, but some line contains
  \<open>experience\<close> (in any case) and is shorter than 70 characters, the returned experience is
  the newline-join, capped at 1500 characters, of the up to 14 lines that follow the first
  occurrence of the first such line; it is not empty when a line follows.
\<close>
theorem C7_experience_fallback:
  assumes "acquire pdf = Inr all_text"
    and "lines = normalize_lines (strip all_text)"
    and "\<not> list_ex (matches_any (patterns_for ''experience'')) lines"
    and "find (\<lambda>ln. str_in ''experience'' (lower ln) \<and> length ln < 70) lines = Some ln"
  shows "\<exists>idx. index_of lines ln = Some idx \<and>
     extract_resume_from_pdf pdf ''experience'' =
       Some (take 1500 (join [CHR 0x0A] (take 14 (drop (Suc idx) lines)))) \<and>
     length (take 14 (drop (Suc idx) lines)) \<le> 14 \<and>
     (Suc idx < length lines \<longrightarrow> extract_resume_from_pdf pdf ''experience'' \<noteq> Some '''')"
proof -
  define sp where "sp = locate_headers section_patterns lines []"
  have mem: "ln \<in> set lines" using assms(4) by (auto simp: find_Some_iff)
  then have ne: "lines \<noteq> []" by auto
  then have nb: "strip all_text \<noteq> []" using assms(2) normalize_lines_Nil by auto
  from extract_from_text_run [OF default_keys nb assms(2) ne sp_def]
  obtain rf re where rf: "extract_from_text all_text get_default_16_fields = Inr rf"
    "fill_experience lines sp get_default_16_fields = Inr re"
    "rf ''experience'' = re ''experience''"
    by blast
  have e: "extract_resume_from_pdf pdf = rf" using extract_acquired [OF assms(1) rf(1)] .
  obtain idx where idx: "index_of lines ln = Some idx" using index_of_mem [OF mem] by blast
  let ?E = "take 14 (drop (Suc idx) lines)"
  have "map_of sp ''experience'' = None"
    unfolding sp_def using assms(3) by (rule no_header_no_position)
  then have none: "get_section_content lines sp ''experience'' 30 = []"
    by (rule get_section_content_absent)
  have fb: "experience_fallback lines lines get_default_16_fields = Inr ?E"
    using experience_fallback_run [of lines lines get_default_16_fields] assms(4) idx
    by (simp add: slice_def)
  have re: "re ''experience'' = Some (take 1500 (join [CHR 0x0A] ?E))"
    using rf(2) by (cases "?E = []") (auto simp: fill_experience_def none fb default_values)
  have nonempty: "take 1500 (join [CHR 0x0A] ?E) \<noteq> []" if "Suc idx < length lines"
  proof -
    have "?E \<noteq> []" using that by simp
    moreover have "\<forall>x \<in> set ?E. x \<noteq> []"
      using normalize_lines_nonempty [of _ "strip all_text"] assms(2)
      by (meson in_set_dropD in_set_takeD)
    ultimately show ?thesis using join_nonempty take_nonempty by simp
  qed
  show ?thesis
    unfolding e rf(3) re using idx nonempty by simp
qed

theorem C7_witness:
  "find (\<lambda>ln. str_in ''experience'' (lower ln) \<and> length ln < 70)
     [''5 years experience in logistics'', ''Managed warehouse'', ''Led a team''] =
     Some ''5 years experience in logistics'' \<and>
   \<not> list_ex (matches_any (patterns_for ''experience''))
     [''5 years experience in logistics'', ''Managed warehouse'', ''Led a team''] \<and>
   extract_resume_from_pdf
     (Inr [Inr (Some (''5 years experience in logistics'' @ [CHR 0x0A] @ ''Managed warehouse'' @
        [CHR 0x0A] @ ''Led a team''))]) ''experience'' =
     Some (''Managed warehouse'' @ [CHR 0x0A] @ ''Led a team'')"
proof -
  let ?pdf = "Inr [Inr (Some (''5 years experience in logistics'' @ [CHR 0x0A] @
     ''Managed warehouse'' @ [CHR 0x0A] @ ''Led a team''))]"
  let ?t = "CHR 0x0A # ''5 years experience in logistics'' @ [CHR 0x0A] @
     ''Managed warehouse'' @ [CHR 0x0A] @ ''Led a team''"
  let ?ls = "[''5 years experience in logistics'', ''Managed warehouse'', ''Led a team'']"
  have a: "acquire ?pdf = Inr ?t" by (simp add: acquire_def)
  have l: "normalize_lines (strip ?t) = ?ls" by (simp add: eval_defs)
  have h: "\<not> list_ex (matches_any (patterns_for ''experience'')) ?ls"
    by (simp add: patterns_for_def eval_defs)
  have f: "find (\<lambda>ln. str_in ''experience'' (lower ln) \<and> length ln < 70) ?ls =
      Some ''5 years experience in logistics''"
    by (simp add: eval_defs)
  have i: "index_of ?ls ''5 years experience in logistics'' = Some 0" by simp
  from C7_experience_fallback [OF a l [symmetric] h f] i f h
  show ?thesis by simp
qed

lemma section_end_stops:
  assumes "(f, p) \<in> set sp" and "start < p"
  shows "section_end ls sp start \<le> p"
proof -
  let ?step = "\<lambda>e (other_field, pos). if pos > start \<and> pos < e then pos else e"
  have le: "foldl ?step e xs \<le> e" for e and xs :: "(string \<times> nat) list"
  proof (induction xs arbitrary: e)
    case Nil
    then show ?case by simp
  next
    case (Cons a xs)
    have "?step e a \<le> e" by (cases a) simp
    then show ?case using Cons [of "?step e a"] by simp
  qed
  have "(f, p) \<in> set xs \<Longrightarrow> foldl ?step e xs \<le> p" for e and xs :: "(string \<times> nat) list"
  proof (induction xs arbitrary: e)
    case Nil
    then show ?case by simp
  next
    case (Cons a xs)
    show ?case
    proof (cases "a = (f, p)")
      case True
      have "?step e a \<le> p" using True assms(2) by simp
      then show ?thesis using le [of "?step e a" xs] by simp
    next
      case False
      then show ?thesis using Cons by simp
    qed
  qed
  then show ?thesis using assms(1) by (simp add: section_end_def)
qed

lemma title_scan_title:
  "title_scan xs r ''title'' = r ''title'' \<or>
   (\<exists>ln. title_scan xs r ''title'' = Some ln \<and>
      list_ex (\<lambda>kw. str_in kw (lower ln)) title_keywords)"
  by (induction xs) auto

lemma my_resume_no_keyword:
  "\<not> list_ex (\<lambda>kw. str_in kw (lower ''My Resume'')) title_keywords"
  by (simp add: eval_defs)

lemma infer_title_never_sniffs:
  assumes "r ''title'' = Some ''''"
  shows "infer_title ls r = Inr (title_scan (take 25 ls) r)"
proof -
  obtain t where t: "title_scan (take 25 ls) r ''title'' = Some t" "t \<noteq> ''My Resume''"
    using title_scan_title [of "take 25 ls" r] assms my_resume_no_keyword by auto
  then show ?thesis using assms by (simp add: infer_title_def getitem_def)
qed

text \<open>
  Claim C4 fails on the code. The loop that lowers \<^verbatim>\<open>end\<close> tests \<^verbatim>\<open>pos > start\<close> with
  \<^verbatim>\<open>start\<close> already one past the header, so a header on the very next line is no
  terminator: with the summary header at line 0 and the skills header at line 1, the summary
  slice runs to the end of the document and holds lines 1 and 2.
\<close>
theorem C4_adjacent_header_not_a_terminator:
  "locate_headers section_patterns
     [''SUMMARY'', ''TECHNICAL SKILLS'', ''Python, Django, Flask and more''] [] =
     [(''summary'', 0), (''skills'', 1)] \<and>
   section_end [''SUMMARY'', ''TECHNICAL SKILLS'', ''Python, Django, Flask and more'']
     [(''summary'', 0), (''skills'', 1)] (0 + 1) = 3 \<and>
   get_section_content [''SUMMARY'', ''TECHNICAL SKILLS'', ''Python, Django, Flask and more'']
     [(''summary'', 0), (''skills'', 1)] ''summary'' 10 =
     [''TECHNICAL SKILLS'', ''Python, Django, Flask and more'']"
  by (simp add: eval_defs)

text \<open>
  Claim C6 fails on the code. The sniffing of the skills text is guarded by
  \<^verbatim>\<open>result["title"] == "My Resume"\<close>, but the default title is the empty string: with no
  keyword line the title stays empty, where the claim gives \<open>Professional\<close>.
\<close>
theorem C6_title_fallback_not_reached:
  "\<not> list_ex (\<lambda>ln. list_ex (\<lambda>kw. str_in kw (lower ln)) title_keywords \<and> length ln < 100)
       (take 25 (normalize_lines (strip (CHR 0x0A # ''hello world'')))) \<and>
   acquire (Inr [Inr (Some ''hello world'')]) = Inr (CHR 0x0A # ''hello world'') \<and>
   extract_resume_from_pdf (Inr [Inr (Some ''hello world'')]) ''skills'' = Some '''' \<and>
   extract_resume_from_pdf (Inr [Inr (Some ''hello world'')]) ''title'' = Some '''' \<and>
   extract_resume_from_pdf (Inr [Inr (Some ''hello world'')]) ''title'' \<noteq> Some ''Professional''"
  by (simp add: eval_defs)

end
